theory Spec2Isabelle
  imports Main "HOL-Library.AList"
begin

section \<open>JavaScript values and containers\<close>

text \<open>
  A request parameter (a query parameter, a body field, a header) is a \<open>string option\<close>:
  \<open>None\<close> is JavaScript's \<open>undefined\<close>. The handlers test such values for truthiness
  (\<open>if (state)\<close>, \<open>a || b\<close>, \<open>a && b\<close>): \<open>undefined\<close> and the empty string are falsy,
  every other string is truthy.
\<close>

definition truthy :: "string option \<Rightarrow> bool" where
  "truthy v = (case v of None \<Rightarrow> False | Some s \<Rightarrow> s \<noteq> [])"

text \<open>\<open>v || d\<close> for a string \<open>d\<close>.\<close>

definition or_else :: "string option \<Rightarrow> string \<Rightarrow> string" where
  "or_else v d = (case v of None \<Rightarrow> d | Some s \<Rightarrow> if s = [] then d else s)"

text \<open>A destructuring default \<open>{ scope = 'tmdb:read' }\<close>: it replaces \<open>undefined\<close> only.\<close>

definition default_to :: "string option \<Rightarrow> string \<Rightarrow> string" where
  "default_to v d = (case v of None \<Rightarrow> d | Some s \<Rightarrow> s)"

text \<open>\<open>String(v)\<close>, as a template literal or \<open>new URL(v)\<close> applies it.\<close>

definition js_String :: "string option \<Rightarrow> string" where
  "js_String v = (case v of None \<Rightarrow> ''undefined'' | Some s \<Rightarrow> s)"

text \<open>\<open>s.startsWith(p)\<close> and \<open>s.slice(n)\<close>.\<close>

definition startsWith :: "string \<Rightarrow> string \<Rightarrow> bool" where
  "startsWith s p = (take (length p) s = p)"

definition slice_from :: "nat \<Rightarrow> string \<Rightarrow> string" where
  "slice_from n s = drop n s"

text \<open>
  A JavaScript \<open>Map\<close> keeps one entry per key, in insertion order: an association list
  with \<open>Map.get\<close> as \<^const>\<open>map_of\<close>, \<open>Map.set\<close> as \<^const>\<open>AList.update\<close> (the value
  is replaced in place when the key is there, the entry is appended otherwise),
  \<open>Map.delete\<close> as \<^const>\<open>AList.delete\<close> and \<open>Map.size\<close> as \<^const>\<open>length\<close>.
\<close>

type_synonym ('k, 'v) js_map = "('k \<times> 'v) list"

abbreviation Map_get :: "('k, 'v) js_map \<Rightarrow> 'k \<Rightarrow> 'v option" where
  "Map_get m k \<equiv> map_of m k"

abbreviation Map_set :: "'k \<Rightarrow> 'v \<Rightarrow> ('k, 'v) js_map \<Rightarrow> ('k, 'v) js_map" where
  "Map_set k v m \<equiv> AList.update k v m"

abbreviation Map_delete :: "'k \<Rightarrow> ('k, 'v) js_map \<Rightarrow> ('k, 'v) js_map" where
  "Map_delete k m \<equiv> AList.delete k m"

section \<open>HTTP responses\<close>

text \<open>
  The JSON bodies the OAuth handlers send: \<open>{error, details?}\<close> and
  \<open>{access_token, token_type, expires_in, scope}\<close>.
\<close>

datatype json_body =
    ErrorBody string "string option"
  | TokenBody string string nat string

text \<open>
  \<open>res.redirect(url)\<close>, \<open>res.status(n).json(body)\<close> (\<open>res.json(body)\<close> is status 200), and
  \<open>res.status(n).send(text)\<close>.
\<close>

datatype response =
    Redirect string
  | Json nat json_body
  | Send nat string

section \<open>The OAuth server with separate code and token stores (src/unnamed/part\_002)\<close>

text \<open>
  The records stored by \<open>authorizationCodes.set\<close> and \<open>accessTokens.set\<close>. Times are
  \<open>Date.now()\<close> readings, milliseconds as integers.
\<close>

record auth_code =
  ac_client_id :: string
  ac_redirect_uri :: "string option"
  ac_scope :: string
  ac_code_challenge :: "string option"
  ac_code_challenge_method :: string
  ac_expires_at :: int

record access_token =
  at_client_id :: string
  at_scope :: string
  at_expires_at :: int

text \<open>
  The two stores the handlers write. The third map of the file, \<open>clients\<close>, is only read
  into a variable that the handlers never use, and written by \<open>/oauth/register\<close> alone.
\<close>

record oauth_state =
  authorizationCodes :: "(string, auth_code) js_map"
  accessTokens :: "(string, access_token) js_map"

definition DEFAULT_CLIENT_client_id :: string where
  "DEFAULT_CLIENT_client_id = ''tmdb-mcp-client''"

text \<open>
  The WHATWG \<open>URL\<close> class is not part of the repository: its operations are parameters.
  \<open>new_URL\<close> returns \<open>Inl message\<close> when the constructor throws its \<open>TypeError\<close>.
\<close>

record 'u url_api =
  new_URL :: "string \<Rightarrow> string + 'u"
  searchParams_set :: "'u \<Rightarrow> string \<Rightarrow> string \<Rightarrow> 'u"
  toString :: "'u \<Rightarrow> string"

record authorize_query =
  q_client_id :: "string option"
  q_redirect_uri :: "string option"
  q_scope :: "string option"
  q_state :: "string option"
  q_response_type :: "string option"
  q_code_challenge :: "string option"
  q_code_challenge_method :: "string option"

text \<open>
  \<open>app.get('/oauth/authorize')\<close>. \<open>authCode\<close> is the value of \<open>crypto.randomUUID()\<close> and
  \<open>now\<close> the value of \<open>Date.now()\<close>. The record is stored before the \<open>try\<close> block; the
  \<open>catch\<close> answers 400 and removes nothing.
\<close>

definition set_state_param :: "'u url_api \<Rightarrow> string option \<Rightarrow> 'u \<Rightarrow> 'u" where
  "set_state_param api st u =
     (case st of
        None \<Rightarrow> u
      | Some v \<Rightarrow> if v = [] then u else searchParams_set api u ''state'' v)"

definition oauth_authorize ::
  "'u url_api \<Rightarrow> authorize_query \<Rightarrow> string \<Rightarrow> int \<Rightarrow> oauth_state \<Rightarrow> response \<times> oauth_state" where
  "oauth_authorize api q authCode now s =
     (let s' = s\<lparr>authorizationCodes :=
                  Map_set authCode
                    \<lparr>ac_client_id = or_else (q_client_id q) DEFAULT_CLIENT_client_id,
                     ac_redirect_uri = q_redirect_uri q,
                     ac_scope = default_to (q_scope q) ''tmdb:read'',
                     ac_code_challenge = q_code_challenge q,
                     ac_code_challenge_method = default_to (q_code_challenge_method q) ''S256'',
                     ac_expires_at = now + 600000\<rparr>
                    (authorizationCodes s)\<rparr>
      in case new_URL api (js_String (q_redirect_uri q)) of
           Inl message \<Rightarrow>
             (Json 400 (ErrorBody ''invalid_redirect_uri'' (Some message)), s')
         | Inr callbackUrl \<Rightarrow>
             (Redirect (toString api
                (set_state_param api (q_state q)
                   (searchParams_set api callbackUrl ''code'' authCode))), s'))"

record token_body =
  b_grant_type :: "string option"
  b_code :: "string option"
  b_redirect_uri :: "string option"
  b_client_id :: "string option"
  b_client_secret :: "string option"
  b_code_verifier :: "string option"

text \<open>
  The PKCE test \<open>authData.code_challenge && code_verifier\<close> followed by
  \<open>hash !== authData.code_challenge\<close>. The digest
  \<open>crypto.createHash('sha256').update(v).digest('base64url')\<close> is Node's: a parameter.
\<close>

definition pkce_fails :: "(string \<Rightarrow> string) \<Rightarrow> string option \<Rightarrow> string option \<Rightarrow> bool" where
  "pkce_fails sha256_base64url code_challenge code_verifier =
     (case code_challenge of
        None \<Rightarrow> False
      | Some ch \<Rightarrow>
          (case code_verifier of
             None \<Rightarrow> False
           | Some v \<Rightarrow> ch \<noteq> [] \<and> v \<noteq> [] \<and> sha256_base64url v \<noteq> ch))"

definition invalid_grant :: "string \<Rightarrow> response" where
  "invalid_grant details = Json 400 (ErrorBody ''invalid_grant'' (Some details))"

text \<open>
  \<open>app.post('/oauth/token')\<close>. \<open>accessToken\<close> is the value of \<open>crypto.randomUUID()\<close>, \<open>now\<close>
  the value of \<open>Date.now()\<close> (one reading for the handler's run). The keys of the map
  are strings, so \<open>authorizationCodes.get(undefined)\<close> finds nothing.
\<close>

definition oauth_token ::
  "(string \<Rightarrow> string) \<Rightarrow> token_body \<Rightarrow> string \<Rightarrow> int \<Rightarrow> oauth_state \<Rightarrow> response \<times> oauth_state" where
  "oauth_token sha256_base64url b accessToken now s =
     (if b_grant_type b = Some ''client_credentials'' then
        (Json 200 (TokenBody accessToken ''Bearer'' 3600 ''tmdb:read''),
         s\<lparr>accessTokens :=
             Map_set accessToken
               \<lparr>at_client_id = or_else (b_client_id b) DEFAULT_CLIENT_client_id,
                at_scope = ''tmdb:read'',
                at_expires_at = now + 3600000\<rparr>
               (accessTokens s)\<rparr>)
      else if b_grant_type b = Some ''authorization_code'' then
        (case b_code b of
           None \<Rightarrow> (invalid_grant ''Code not found or expired'', s)
         | Some code \<Rightarrow>
             (case Map_get (authorizationCodes s) code of
                None \<Rightarrow> (invalid_grant ''Code not found or expired'', s)
              | Some authData \<Rightarrow>
                  if ac_expires_at authData < now then
                    (invalid_grant ''Code not found or expired'', s)
                  else if pkce_fails sha256_base64url (ac_code_challenge authData)
                            (b_code_verifier b) then
                    (invalid_grant ''PKCE verification failed'', s)
                  else
                    (Json 200 (TokenBody accessToken ''Bearer'' 3600 (ac_scope authData)),
                     s\<lparr>authorizationCodes := Map_delete code (authorizationCodes s),
                       accessTokens :=
                         Map_set accessToken
                           \<lparr>at_client_id = ac_client_id authData,
                            at_scope = ac_scope authData,
                            at_expires_at = now + 3600000\<rparr>
                           (accessTokens s)\<rparr>)))
      else (Json 400 (ErrorBody ''unsupported_grant_type'' None), s))"

text \<open>
  The middleware \<open>requireAuth\<close>: it either sends a response or sets \<open>req.tokenData\<close> and
  calls \<open>next()\<close>.
\<close>

datatype 'a gate_outcome = Rejected response | Admitted 'a

definition requireAuth ::
  "string option \<Rightarrow> int \<Rightarrow> oauth_state \<Rightarrow> access_token gate_outcome \<times> oauth_state" where
  "requireAuth authHeader now s =
     (if \<not> truthy authHeader \<or> \<not> startsWith (js_String authHeader) ''Bearer '' then
        (Rejected (Json 401 (ErrorBody ''invalid_token'' None)), s)
      else
        (case Map_get (accessTokens s) (slice_from 7 (js_String authHeader)) of
           None \<Rightarrow> (Rejected (Json 401 (ErrorBody ''invalid_token'' None)), s)
         | Some tokenData \<Rightarrow>
             if at_expires_at tokenData < now then
               (Rejected (Json 401 (ErrorBody ''invalid_token'' None)), s)
             else (Admitted tokenData, s)))"

text \<open>
  A client's request to this server, with the values the handler draws from
  \<open>crypto.randomUUID()\<close>, and the stores after the handler has run on it at time \<open>now\<close>.
  \<open>Protected\<close> is a request to a route behind \<open>requireAuth\<close>. The other routes of the file
  write neither store.
\<close>

datatype oauth_request =
    Authorize authorize_query string
  | Token token_body string
  | Protected "string option"

fun oauth_step ::
  "'u url_api \<Rightarrow> (string \<Rightarrow> string) \<Rightarrow> oauth_request \<times> int \<Rightarrow> oauth_state \<Rightarrow> oauth_state" where
  "oauth_step api sha (Authorize q authCode, now) s = snd (oauth_authorize api q authCode now s)"
| "oauth_step api sha (Token b accessToken, now) s = snd (oauth_token sha b accessToken now s)"
| "oauth_step api sha (Protected authHeader, now) s = snd (requireAuth authHeader now s)"

definition oauth_run ::
  "'u url_api \<Rightarrow> (string \<Rightarrow> string) \<Rightarrow> (oauth_request \<times> int) list \<Rightarrow> oauth_state \<Rightarrow> oauth_state" where
  "oauth_run api sha reqs s = fold (oauth_step api sha) reqs s"

section \<open>The OAuth server with one store (src/src/server-sse-oauth.js)\<close>

text \<open>
  One map, \<open>tokens\<close>, holds the authorization codes (\<open>{client_id, scope, created_at}\<close>,
  no \<open>type\<close>) and the access tokens (\<open>type: 'access_token'\<close>). No record has an expiry
  time.
\<close>

record token_record =
  tk_type :: "string option"
  tk_client_id :: string
  tk_scope :: string
  tk_created_at :: int

text \<open>
  A handler with no \<open>try\<close> around a throwing call does not answer: the exception leaves
  the handler.
\<close>

datatype handler_result = Responded response | Threw string

text \<open>\<open>app.get('/oauth/authorize')\<close>: \<open>new URL(redirect_uri)\<close> is called outside any \<open>try\<close>.\<close>

definition sse_oauth_authorize ::
  "'u url_api \<Rightarrow> authorize_query \<Rightarrow> string \<Rightarrow> int \<Rightarrow> (string, token_record) js_map
     \<Rightarrow> handler_result \<times> (string, token_record) js_map" where
  "sse_oauth_authorize api q code now tokens =
     (let tokens' = Map_set code
                      \<lparr>tk_type = None,
                       tk_client_id = or_else (q_client_id q) ''default'',
                       tk_scope = or_else (q_scope q) ''read'',
                       tk_created_at = now\<rparr>
                      tokens
      in case new_URL api (js_String (q_redirect_uri q)) of
           Inl message \<Rightarrow> (Threw message, tokens')
         | Inr callback \<Rightarrow>
             (Responded (Redirect (toString api
                (set_state_param api (q_state q)
                   (searchParams_set api callback ''code'' code)))), tokens'))"

text \<open>\<open>app.post('/oauth/token')\<close>: the access token is stored first, then the code is deleted.\<close>

definition sse_oauth_token ::
  "token_body \<Rightarrow> string \<Rightarrow> int \<Rightarrow> (string, token_record) js_map
     \<Rightarrow> response \<times> (string, token_record) js_map" where
  "sse_oauth_token b accessToken now tokens =
     (if b_grant_type b \<noteq> Some ''authorization_code'' then
        (Json 400 (ErrorBody ''unsupported_grant_type'' None), tokens)
      else
        (case b_code b of
           None \<Rightarrow> (Json 400 (ErrorBody ''invalid_grant'' None), tokens)
         | Some code \<Rightarrow>
             (case Map_get tokens code of
                None \<Rightarrow> (Json 400 (ErrorBody ''invalid_grant'' None), tokens)
              | Some tokenData \<Rightarrow>
                  (Json 200 (TokenBody accessToken ''Bearer'' 3600 (tk_scope tokenData)),
                   Map_delete code
                     (Map_set accessToken
                        \<lparr>tk_type = Some ''access_token'',
                         tk_client_id = tk_client_id tokenData,
                         tk_scope = tk_scope tokenData,
                         tk_created_at = now\<rparr>
                        tokens)))))"

text \<open>The middleware \<open>requireAuth\<close> of this server: it reads no clock.\<close>

definition sse_requireAuth ::
  "string option \<Rightarrow> (string, token_record) js_map
     \<Rightarrow> unit gate_outcome \<times> (string, token_record) js_map" where
  "sse_requireAuth auth tokens =
     (if \<not> truthy auth \<or> \<not> startsWith (js_String auth) ''Bearer '' then
        (Rejected (Json 401 (ErrorBody ''unauthorized'' None)), tokens)
      else
        (case Map_get tokens (slice_from 7 (js_String auth)) of
           None \<Rightarrow> (Rejected (Json 401 (ErrorBody ''invalid_token'' None)), tokens)
         | Some tokenData \<Rightarrow>
             if tk_type tokenData \<noteq> Some ''access_token'' then
               (Rejected (Json 401 (ErrorBody ''invalid_token'' None)), tokens)
             else (Admitted (), tokens)))"

fun sse_oauth_step ::
  "'u url_api \<Rightarrow> oauth_request \<times> int \<Rightarrow> (string, token_record) js_map
     \<Rightarrow> (string, token_record) js_map" where
  "sse_oauth_step api (Authorize q code, now) tokens = snd (sse_oauth_authorize api q code now tokens)"
| "sse_oauth_step api (Token b accessToken, now) tokens = snd (sse_oauth_token b accessToken now tokens)"
| "sse_oauth_step api (Protected auth, now) tokens = snd (sse_requireAuth auth tokens)"

definition sse_oauth_run ::
  "'u url_api \<Rightarrow> (oauth_request \<times> int) list \<Rightarrow> (string, token_record) js_map
     \<Rightarrow> (string, token_record) js_map" where
  "sse_oauth_run api reqs tokens = fold (sse_oauth_step api) reqs tokens"

text \<open>
  A small stand-in for the \<open>URL\<close> class, to run the handlers on concrete requests:
  it accepts the strings that start with \<open>http://\<close> or \<open>https://\<close>.
\<close>

definition test_url_api :: "string url_api" where
  "test_url_api =
     \<lparr>new_URL = (\<lambda>s. if startsWith s ''http://'' \<or> startsWith s ''https://''
                       then Inr s else Inl ''Invalid URL''),
      searchParams_set = (\<lambda>u k v. u @ (if CHR ''?'' \<in> set u then ''&'' else ''?'') @ k @ ''='' @ v),
      toString = (\<lambda>u. u)\<rparr>"

text \<open>
  Which UUID a request makes the server draw: the code the Authorization Endpoint
  issues, and any value drawn at all.
\<close>

fun issued_code :: "oauth_request \<Rightarrow> string option" where
  "issued_code (Authorize q authCode) = Some authCode"
| "issued_code (Token b accessToken) = None"
| "issued_code (Protected authHeader) = None"

fun drawn_uuid :: "oauth_request \<Rightarrow> string option" where
  "drawn_uuid (Authorize q code) = Some code"
| "drawn_uuid (Token b accessToken) = Some accessToken"
| "drawn_uuid (Protected auth) = None"

section \<open>Session registries\<close>

text \<open>
  The registry \<open>const transports = {}\<close> is a plain object. Its own properties are an
  association list in insertion order. A read \<open>transports[key]\<close> of a key that is no own
  property falls through to \<open>Object.prototype\<close>: for the names below it yields a function
  (for \<open>__proto__\<close> the prototype object), which is truthy and is no transport.
\<close>

definition Object_prototype_keys :: "string list" where
  "Object_prototype_keys =
     [''constructor'', ''__defineGetter__'', ''__defineSetter__'', ''hasOwnProperty'',
      ''__lookupGetter__'', ''__lookupSetter__'', ''isPrototypeOf'', ''propertyIsEnumerable'',
      ''toString'', ''valueOf'', ''__proto__'', ''toLocaleString'']"

datatype 'tr js_property = Own 'tr | Inherited | Undefined

definition get_property :: "(string, 'tr) js_map \<Rightarrow> string \<Rightarrow> 'tr js_property" where
  "get_property obj key =
     (case Map_get obj key of
        Some t \<Rightarrow> Own t
      | None \<Rightarrow> if key \<in> set Object_prototype_keys then Inherited else Undefined)"

subsection \<open>Streamable HTTP (src/src/server-http.js)\<close>

text \<open>
  What a \<open>/mcp\<close> handler does after it has set the \<open>Mcp-Session-Id\<close> header to the
  session id: it calls \<open>handleGetRequest\<close> or \<open>handlePostRequest\<close> of the transport it
  picked, or throws because the value it picked has no such method.
\<close>

datatype 'tr mcp_result =
    HandleGetRequest string 'tr
  | HandlePostRequest string 'tr
  | NotAFunction string

text \<open>
  \<open>app.get('/mcp')\<close> and \<open>app.post('/mcp')\<close>. \<open>header\<close> is \<open>req.headers['mcp-session-id']\<close>,
  \<open>uuid\<close> the value of \<open>randomUUID()\<close>, and \<open>created\<close> the object that
  \<open>new StreamableHTTPServerTransport(server)\<close> makes if the handler gets there.
\<close>

definition mcp_get ::
  "string option \<Rightarrow> string \<Rightarrow> 'tr \<Rightarrow> (string, 'tr) js_map \<Rightarrow> 'tr mcp_result \<times> (string, 'tr) js_map" where
  "mcp_get header uuid created transports =
     (let sessionId = or_else header uuid
      in case get_property transports sessionId of
           Own transport \<Rightarrow> (HandleGetRequest sessionId transport, transports)
         | Inherited \<Rightarrow> (NotAFunction sessionId, transports)
         | Undefined \<Rightarrow>
             (HandleGetRequest sessionId created, Map_set sessionId created transports))"

definition mcp_post ::
  "string option \<Rightarrow> string \<Rightarrow> 'tr \<Rightarrow> (string, 'tr) js_map \<Rightarrow> 'tr mcp_result \<times> (string, 'tr) js_map" where
  "mcp_post header uuid created transports =
     (let sessionId = or_else header uuid
      in case get_property transports sessionId of
           Own transport \<Rightarrow> (HandlePostRequest sessionId transport, transports)
         | Inherited \<Rightarrow> (NotAFunction sessionId, transports)
         | Undefined \<Rightarrow>
             (HandlePostRequest sessionId created, Map_set sessionId created transports))"

datatype 'tr mcp_request =
    GET "string option" string 'tr
  | POST "string option" string 'tr

fun mcp_step :: "'tr mcp_request \<Rightarrow> (string, 'tr) js_map \<Rightarrow> (string, 'tr) js_map" where
  "mcp_step (GET header uuid created) transports = snd (mcp_get header uuid created transports)"
| "mcp_step (POST header uuid created) transports = snd (mcp_post header uuid created transports)"

definition mcp_run :: "'tr mcp_request list \<Rightarrow> (string, 'tr) js_map \<Rightarrow> (string, 'tr) js_map" where
  "mcp_run reqs transports = fold mcp_step reqs transports"

subsection \<open>SSE with a registry (the second server of src/unnamed/part\_000)\<close>

text \<open>
  An \<open>SSEServerTransport\<close>: the session id its constructor draws, and the response
  stream \<open>res\<close> it writes to.
\<close>

record 'res sse_transport =
  sessionId :: string
  res :: 'res

text \<open>
  \<open>app.get('/sse')\<close>: every open makes a new transport and stores it under the transport's
  own id (a UUID, never \<open>__proto__\<close>). The handler registers \<open>sse_close\<close> of that id
  on the stream's \<open>close\<close> event.
\<close>

definition sse_get ::
  "string \<Rightarrow> 'res \<Rightarrow> (string, 'res sse_transport) js_map \<Rightarrow> (string, 'res sse_transport) js_map" where
  "sse_get uuid stream transports =
     (let transport = \<lparr>sessionId = uuid, res = stream\<rparr>
      in Map_set (sessionId transport) transport transports)"

definition sse_close ::
  "string \<Rightarrow> (string, 'res sse_transport) js_map \<Rightarrow> (string, 'res sse_transport) js_map" where
  "sse_close session transports = Map_delete session transports"

text \<open>
  \<open>app.post('/messages')\<close>, with \<open>query_sessionId\<close> for \<open>req.query.sessionId\<close>: only an own
  property passes \<open>transport instanceof SSEServerTransport\<close>.
\<close>

datatype 'res messages_result =
    HandlePostMessage "'res sse_transport"
  | Respond response

definition messages_post ::
  "string option \<Rightarrow> (string, 'res sse_transport) js_map
     \<Rightarrow> 'res messages_result \<times> (string, 'res sse_transport) js_map" where
  "messages_post query_sessionId transports =
     (case get_property transports (js_String query_sessionId) of
        Own transport \<Rightarrow> (HandlePostMessage transport, transports)
      | Inherited \<Rightarrow> (Respond (Send 400 ''No transport found for sessionId''), transports)
      | Undefined \<Rightarrow> (Respond (Send 400 ''No transport found for sessionId''), transports))"

datatype 'res sse_event =
    Open string 'res
  | Close string
  | Message "string option"

fun sse_step ::
  "'res sse_event \<Rightarrow> (string, 'res sse_transport) js_map \<Rightarrow> (string, 'res sse_transport) js_map" where
  "sse_step (Open uuid stream) transports = sse_get uuid stream transports"
| "sse_step (Close session) transports = sse_close session transports"
| "sse_step (Message query_sessionId) transports = snd (messages_post query_sessionId transports)"

definition sse_run ::
  "'res sse_event list \<Rightarrow> (string, 'res sse_transport) js_map \<Rightarrow> (string, 'res sse_transport) js_map" where
  "sse_run events transports = fold sse_step events transports"

section \<open>Tool dispatchers\<close>

text \<open>
  The external content API, as the handlers use it. \<open>fetch(url)\<close> either rejects (a
  network error, with its message) or resolves to a response with a status; the
  \<open>response.json()\<close> that follows either throws (a body that is no JSON, with the
  message) or yields the parsed data. \<open>encodeURIComponent\<close> throws a \<open>URIError\<close> on a
  lone surrogate. \<open>JSON_stringify\<close> is \<open>JSON.stringify\<close> on the value the handler
  passes to it. All three are the platform's, taken as parameters.
\<close>

datatype 'j fetch_result =
    Rejects string
  | Response nat "string + 'j"

record ('j, 'o) web_api =
  encodeURIComponent :: "string \<Rightarrow> string + string"
  fetch :: "string \<Rightarrow> 'j fetch_result"
  JSON_stringify :: "'o \<Rightarrow> string"

text \<open>
  \<open>const response = await fetch(url); const data = await response.json();\<close> The status of
  the response is not looked at.
\<close>

definition fetch_json :: "('j, 'o) web_api \<Rightarrow> string \<Rightarrow> string + 'j" where
  "fetch_json api url =
     (case fetch api url of
        Rejects message \<Rightarrow> Inl message
      | Response status body \<Rightarrow> body)"

text \<open>
  The arguments of a tool call, \<open>request.params.arguments\<close>, and the result envelope
  \<open>{content: [{type: 'text', text}], isError?}\<close>.
\<close>

record tool_args =
  a_query :: "string option"
  a_id :: "string option"

datatype content_block = Text string

record tool_result =
  content :: "content_block list"
  isError :: "bool option"

definition TMDB_BASE_URL :: string where
  "TMDB_BASE_URL = ''https://api.themoviedb.org/3''"

subsection \<open>The dispatcher that answers in band (src/src/server-chatgpt.js)\<close>

text \<open>
  The body of the \<open>try\<close> block of the \<open>CallToolRequestSchema\<close> handler: \<open>Inl message\<close> is an
  exception thrown inside it (reading a property of an absent \<open>args\<close> is a \<open>TypeError\<close>).
  \<open>TMDB_API_KEY\<close> is the module constant; the process exits at start-up without it.
\<close>

definition chatgpt_search_url :: "string \<Rightarrow> string \<Rightarrow> string" where
  "chatgpt_search_url TMDB_API_KEY query =
     TMDB_BASE_URL @ ''/search/movie?api_key='' @ TMDB_API_KEY @ ''&query='' @ query"

definition chatgpt_fetch_url :: "string \<Rightarrow> string \<Rightarrow> string" where
  "chatgpt_fetch_url TMDB_API_KEY movieId =
     TMDB_BASE_URL @ ''/movie/'' @ movieId @ ''?api_key='' @ TMDB_API_KEY
       @ ''&append_to_response=credits,videos,reviews''"

definition chatgpt_try ::
  "string \<Rightarrow> ('j, 'j) web_api \<Rightarrow> string \<Rightarrow> tool_args option \<Rightarrow> string + tool_result" where
  "chatgpt_try TMDB_API_KEY api name args =
     (if name = ''search'' then
        (case args of
           None \<Rightarrow> Inl ''Cannot read properties of undefined (reading 'query')''
         | Some a \<Rightarrow>
             (case encodeURIComponent api (js_String (a_query a)) of
                Inl message \<Rightarrow> Inl message
              | Inr query \<Rightarrow>
                  (case fetch_json api (chatgpt_search_url TMDB_API_KEY query) of
                     Inl message \<Rightarrow> Inl message
                   | Inr data \<Rightarrow>
                       Inr \<lparr>content = [Text (JSON_stringify api data)], isError = None\<rparr>)))
      else if name = ''fetch'' then
        (case args of
           None \<Rightarrow> Inl ''Cannot read properties of undefined (reading 'id')''
         | Some a \<Rightarrow>
             (case fetch_json api (chatgpt_fetch_url TMDB_API_KEY (js_String (a_id a))) of
                Inl message \<Rightarrow> Inl message
              | Inr data \<Rightarrow>
                  Inr \<lparr>content = [Text (JSON_stringify api data)], isError = None\<rparr>))
      else Inl (''Unknown tool: '' @ name))"

text \<open>The handler: its \<open>catch\<close> turns every exception of the \<open>try\<close> block into a result.\<close>

definition chatgpt_CallTool ::
  "string \<Rightarrow> ('j, 'j) web_api \<Rightarrow> string \<Rightarrow> tool_args option \<Rightarrow> string + tool_result" where
  "chatgpt_CallTool TMDB_API_KEY api name args =
     (case chatgpt_try TMDB_API_KEY api name args of
        Inl message \<Rightarrow> Inr \<lparr>content = [Text (''Error: '' @ message)], isError = Some True\<rparr>
      | Inr result \<Rightarrow> Inr result)"

subsection \<open>The search tool that formats its results (src/src/server-final.js, src/src/server-sse-oauth.js)\<close>

text \<open>
  The fields the \<open>search\<close> case reads: \<open>data.results\<close>, and of each movie \<open>id\<close>,
  \<open>title\<close> and \<open>release_date\<close>. \<open>None\<close> is a field that is not there. The \<open>id\<close> comes out
  of \<open>response.json()\<close> as a JavaScript number, a double: its type \<open>'n\<close> is left open, and
  so is its rendering by \<open>Number.prototype.toString\<close>, which the handlers get as the
  parameter \<open>Number_toString\<close> (decimal digits for the safe integers, rounded digits above
  \<open>2^53\<close>, exponent notation from \<open>1e21\<close>). The template literal \<open>${movie.id}\<close> renders a
  number the same way.
\<close>

record 'n movie =
  m_id :: "'n option"
  m_title :: "string option"
  m_release_date :: "string option"

record 'n search_data =
  results :: "'n movie list option"

record search_entry =
  e_id :: string
  e_title :: string
  e_url :: string

text \<open>\<open>movie.release_date?.split('-')[0] || 'Unknown'\<close>\<close>

definition release_year :: "string option \<Rightarrow> string" where
  "release_year release_date =
     (case release_date of
        None \<Rightarrow> ''Unknown''
      | Some d \<Rightarrow>
          (let first = takeWhile (\<lambda>c. c \<noteq> CHR ''-'') d
           in if first = [] then ''Unknown'' else first))"

text \<open>The arrow function given to \<open>map\<close>: \<open>movie.id.toString()\<close> throws when \<open>id\<close> is absent.\<close>

definition to_entry :: "('n \<Rightarrow> string) \<Rightarrow> 'n movie \<Rightarrow> string + search_entry" where
  "to_entry Number_toString m =
     (case m_id m of
        None \<Rightarrow> Inl ''Cannot read properties of undefined (reading 'toString')''
      | Some i \<Rightarrow>
          Inr \<lparr>e_id = Number_toString i,
               e_title = js_String (m_title m) @ '' ('' @ release_year (m_release_date m) @ '')'',
               e_url = ''https://www.themoviedb.org/movie/'' @ Number_toString i\<rparr>)"

text \<open>\<open>Array.prototype.map\<close> with a function that may throw: the first exception ends it.\<close>

fun map_entries :: "('n \<Rightarrow> string) \<Rightarrow> 'n movie list \<Rightarrow> string + search_entry list" where
  "map_entries Number_toString [] = Inr []"
| "map_entries Number_toString (m # ms) =
     (case to_entry Number_toString m of
        Inl message \<Rightarrow> Inl message
      | Inr e \<Rightarrow>
          (case map_entries Number_toString ms of
             Inl message \<Rightarrow> Inl message
           | Inr es \<Rightarrow> Inr (e # es)))"

text \<open>\<open>data.results?.slice(0, 10).map(...) || []\<close>\<close>

definition search_results ::
  "('n \<Rightarrow> string) \<Rightarrow> 'n search_data \<Rightarrow> string + search_entry list" where
  "search_results Number_toString data =
     (case results data of
        None \<Rightarrow> Inr []
      | Some movies \<Rightarrow> map_entries Number_toString (take 10 movies))"

text \<open>
  The \<open>search\<close> case with the handler around it: the test of \<open>process.env.TMDB_API_KEY\<close>
  before the \<open>try\<close>, and the \<open>catch\<close> that throws again. The two servers differ in the two
  message texts only.
\<close>

definition search_try ::
  "('n \<Rightarrow> string) \<Rightarrow> string \<Rightarrow> ('n search_data, search_entry list) web_api
     \<Rightarrow> tool_args option \<Rightarrow> string + tool_result" where
  "search_try Number_toString apiKey api args =
     (case args of
        None \<Rightarrow> Inl ''Cannot read properties of undefined (reading 'query')''
      | Some a \<Rightarrow>
          (case encodeURIComponent api (js_String (a_query a)) of
             Inl message \<Rightarrow> Inl message
           | Inr query \<Rightarrow>
               (case fetch_json api
                       (''https://api.themoviedb.org/3/search/movie?api_key='' @ apiKey
                          @ ''&query='' @ query) of
                  Inl message \<Rightarrow> Inl message
                | Inr data \<Rightarrow>
                    (case search_results Number_toString data of
                       Inl message \<Rightarrow> Inl message
                     | Inr entries \<Rightarrow>
                         Inr \<lparr>content = [Text (JSON_stringify api entries)], isError = None\<rparr>))))"

definition search_tool ::
  "string \<Rightarrow> string \<Rightarrow> ('n \<Rightarrow> string) \<Rightarrow> string option
     \<Rightarrow> ('n search_data, search_entry list) web_api \<Rightarrow> tool_args option
     \<Rightarrow> string + tool_result" where
  "search_tool key_required failed_prefix Number_toString env_TMDB_API_KEY api args =
     (if \<not> truthy env_TMDB_API_KEY then Inl key_required
      else
        (case search_try Number_toString (js_String env_TMDB_API_KEY) api args of
           Inl message \<Rightarrow> Inl (failed_prefix @ message)
         | Inr result \<Rightarrow> Inr result))"

definition final_search ::
  "('n \<Rightarrow> string) \<Rightarrow> string option \<Rightarrow> ('n search_data, search_entry list) web_api
     \<Rightarrow> tool_args option \<Rightarrow> string + tool_result" where
  "final_search = search_tool ''TMDB_API_KEY required'' ''Tool failed: ''"

definition sse_oauth_search ::
  "('n \<Rightarrow> string) \<Rightarrow> string option \<Rightarrow> ('n search_data, search_entry list) web_api
     \<Rightarrow> tool_args option \<Rightarrow> string + tool_result" where
  "sse_oauth_search =
     search_tool ''TMDB_API_KEY environment variable is required'' ''Tool execution failed: ''"

section \<open>Example requests\<close>

text \<open>
  The stores at start-up (\<open>new Map()\<close>), the authorization request of the round trip
  \<open>redirect_uri=...&state=xyz\<close>, and a token request of the authorization-code grant.
\<close>

definition initial_oauth_state :: oauth_state where
  "initial_oauth_state = \<lparr>authorizationCodes = [], accessTokens = []\<rparr>"

definition scenario_query :: "string \<Rightarrow> string option \<Rightarrow> authorize_query" where
  "scenario_query redirect_uri code_challenge =
     \<lparr>q_client_id = None, q_redirect_uri = Some redirect_uri, q_scope = None,
      q_state = Some ''xyz'', q_response_type = Some ''code'',
      q_code_challenge = code_challenge, q_code_challenge_method = None\<rparr>"

definition code_grant :: "string \<Rightarrow> string option \<Rightarrow> token_body" where
  "code_grant code code_verifier =
     \<lparr>b_grant_type = Some ''authorization_code'', b_code = Some code, b_redirect_uri = None,
      b_client_id = None, b_client_secret = None, b_code_verifier = code_verifier\<rparr>"

text \<open>The stores after one authorization-code exchange at time 10: token \<open>t1\<close> expires at 3600010.\<close>

definition state_with_token :: oauth_state where
  "state_with_token =
     snd (oauth_token rev (code_grant ''c1'' None) ''t1'' 10
       (snd (oauth_authorize test_url_api (scenario_query ''https://example.com/cb'' None) ''c1'' 0
          initial_oauth_state)))"


text \<open>
  The stores after an authorization request that carries the PKCE challenge \<open>reifirev\<close>.
  The examples run with \<^const>\<open>rev\<close> in the place of the digest, so the verifier
  \<open>verifier\<close> matches this challenge.
\<close>

definition state_with_challenge :: oauth_state where
  "state_with_challenge =
     snd (oauth_authorize test_url_api (scenario_query ''https://example.com/cb'' (Some ''reifirev''))
        ''c1'' 0 initial_oauth_state)"

text \<open>
  A stand-in for the platform with a collaborator that gives one fixed answer, to run
  the handlers on concrete calls.
\<close>

definition test_web_api :: "'j fetch_result \<Rightarrow> ('o \<Rightarrow> string) \<Rightarrow> ('j, 'o) web_api" where
  "test_web_api answer stringify =
     \<lparr>encodeURIComponent = (\<lambda>s. Inr s), fetch = (\<lambda>url. answer), JSON_stringify = stringify\<rparr>"

text \<open>
  A stand-in for \<open>Number.prototype.toString\<close>, with integers for the numbers: the decimal
  digits and a sign, which is what the platform gives for the safe integers. The examples
  use it at the id 550.
\<close>

function string_of_nat :: "nat \<Rightarrow> string" where
  "string_of_nat n =
     (if n < 10 then [''0123456789'' ! n]
      else string_of_nat (n div 10) @ [''0123456789'' ! (n mod 10)])"
  by pat_completeness auto
termination
  by (relation "measure id") auto

declare string_of_nat.simps [simp del]

definition test_Number_toString :: "int \<Rightarrow> string" where
  "test_Number_toString i =
     (if i < 0 then CHR ''-'' # string_of_nat (nat (- i)) else string_of_nat (nat i))"

definition fight_club :: "int movie" where
  "fight_club = \<lparr>m_id = Some 550, m_title = Some ''Fight Club'', m_release_date = Some ''1999-10-15''\<rparr>"

definition entry_lines :: "search_entry list \<Rightarrow> string" where
  "entry_lines entries = concat (map (\<lambda>e. e_id e @ '' | '' @ e_title e @ '' | '' @ e_url e @ ''; '') entries)"

definition search_args :: "string \<Rightarrow> tool_args option" where
  "search_args query = Some \<lparr>a_query = Some query, a_id = None\<rparr>"

definition fetch_args :: "string \<Rightarrow> tool_args option" where
  "fetch_args movieId = Some \<lparr>a_query = None, a_id = Some movieId\<rparr>"

section \<open>Properties of the OAuth servers\<close>

lemmas scenario_defs = initial_oauth_state_def scenario_query_def code_grant_def test_url_api_def
  oauth_authorize_def oauth_token_def requireAuth_def oauth_run_def sse_oauth_authorize_def
  sse_oauth_token_def sse_requireAuth_def sse_oauth_run_def truthy_def or_else_def default_to_def
  js_String_def startsWith_def slice_from_def set_state_param_def pkce_fails_def
  invalid_grant_def DEFAULT_CLIENT_client_id_def

lemma state_with_token_eq:
  "state_with_token =
     \<lparr>authorizationCodes = [],
      accessTokens = [(''t1'', \<lparr>at_client_id = ''tmdb-mcp-client'', at_scope = ''tmdb:read'',
                                at_expires_at = 3600010\<rparr>)]\<rparr>"
  by (simp add: state_with_token_def scenario_defs)

lemma state_with_challenge_eq:
  "state_with_challenge =
     \<lparr>authorizationCodes =
        [(''c1'', \<lparr>ac_client_id = ''tmdb-mcp-client'', ac_redirect_uri = Some ''https://example.com/cb'',
              ac_scope = ''tmdb:read'', ac_code_challenge = Some ''reifirev'',
              ac_code_challenge_method = ''S256'', ac_expires_at = 600000\<rparr>)],
      accessTokens = []\<rparr>"
  by (simp add: state_with_challenge_def scenario_defs)


lemma Map_set_fresh:
  "k \<notin> fst ` set m \<Longrightarrow> Map_set k v m = m @ [(k, v)]"
  by (induction m) auto

lemma oauth_step_code_absent:
  assumes "Map_get (authorizationCodes s) code = None" and "issued_code (fst r) \<noteq> Some code"
  shows "Map_get (authorizationCodes (oauth_step api sha r s)) code = None"
proof (cases r)
  case (Pair req now)
  with assms show ?thesis
    by (cases req)
       (auto simp: oauth_authorize_def oauth_token_def requireAuth_def Let_def update_conv'
          delete_conv' split: sum.splits option.splits)
qed

lemma oauth_run_code_absent:
  assumes "Map_get (authorizationCodes s) code = None"
      and "\<forall>r\<in>set reqs. issued_code (fst r) \<noteq> Some code"
  shows "Map_get (authorizationCodes (oauth_run api sha reqs s)) code = None"
  using assms unfolding oauth_run_def
  by (induction reqs arbitrary: s) (simp_all add: oauth_step_code_absent)

lemma oauth_token_absent_code:
  assumes "b_grant_type b = Some ''authorization_code''" and "b_code b = Some code"
      and "Map_get (authorizationCodes s) code = None"
  shows "oauth_token sha b accessToken now s = (invalid_grant ''Code not found or expired'', s)"
  using assms by (simp add: oauth_token_def)

lemma oauth_token_success_deletes:
  assumes "b_grant_type b = Some ''authorization_code''" and "b_code b = Some code"
      and "fst (oauth_token sha b accessToken now s) = Json 200 tb"
  shows "Map_get (authorizationCodes (snd (oauth_token sha b accessToken now s))) code = None"
  using assms
  by (auto simp: oauth_token_def invalid_grant_def delete_conv' split: option.splits if_splits)

lemma sse_step_code_absent:
  assumes "Map_get tokens code = None" and "drawn_uuid (fst r) \<noteq> Some code"
  shows "Map_get (sse_oauth_step api r tokens) code = None"
proof (cases r)
  case (Pair req now)
  with assms show ?thesis
    by (cases req)
       (auto simp: sse_oauth_authorize_def sse_oauth_token_def sse_requireAuth_def Let_def
          update_conv' delete_conv' split: sum.splits option.splits)
qed

lemma sse_run_code_absent:
  assumes "Map_get tokens code = None"
      and "\<forall>r\<in>set reqs. drawn_uuid (fst r) \<noteq> Some code"
  shows "Map_get (sse_oauth_run api reqs tokens) code = None"
  using assms unfolding sse_oauth_run_def
  by (induction reqs arbitrary: tokens) (simp_all add: sse_step_code_absent)

lemma sse_token_absent_code:
  assumes "b_grant_type b = Some ''authorization_code''" and "b_code b = Some code"
      and "Map_get tokens code = None"
  shows "sse_oauth_token b accessToken now tokens = (Json 400 (ErrorBody ''invalid_grant'' None), tokens)"
  using assms by (simp add: sse_oauth_token_def)

lemma sse_token_success_deletes:
  assumes "b_grant_type b = Some ''authorization_code''" and "b_code b = Some code"
      and "fst (sse_oauth_token b accessToken now tokens) = Json 200 tb"
  shows "Map_get (snd (sse_oauth_token b accessToken now tokens)) code = None"
  using assms
  by (auto simp: sse_oauth_token_def delete_conv' split: option.splits if_splits)

text \<open>
  Claim C1. In both OAuth servers, a successful authorization-code exchange removes the
  code from the store, and a later exchange attempt with the same code is answered with
  \<open>invalid_grant\<close>, whatever requests came in between, as long as the UUID generator does
  not hand out the same value again as a code (in the one-store server: as a code or as
  an access token).
\<close>

theorem authorization_code_single_use:
  assumes first: "b_grant_type b = Some ''authorization_code''" "b_code b = Some code"
      and second: "b_grant_type b' = Some ''authorization_code''" "b_code b' = Some code"
  shows "(fst (oauth_token sha b accessToken now s) = Json 200 tb \<and>
            (\<forall>r\<in>set reqs. issued_code (fst r) \<noteq> Some code) \<longrightarrow>
          Map_get (authorizationCodes (snd (oauth_token sha b accessToken now s))) code = None \<and>
          fst (oauth_token sha b' accessToken' now'
                 (oauth_run api sha reqs (snd (oauth_token sha b accessToken now s))))
            = Json 400 (ErrorBody ''invalid_grant'' (Some ''Code not found or expired''))) \<and>
         (fst (sse_oauth_token b accessToken now tokens) = Json 200 tb \<and>
            (\<forall>r\<in>set reqs. drawn_uuid (fst r) \<noteq> Some code) \<longrightarrow>
          Map_get (snd (sse_oauth_token b accessToken now tokens)) code = None \<and>
          fst (sse_oauth_token b' accessToken' now'
                 (sse_oauth_run api reqs (snd (sse_oauth_token b accessToken now tokens))))
            = Json 400 (ErrorBody ''invalid_grant'' None))"
proof (intro conjI impI)
  assume ok: "fst (oauth_token sha b accessToken now s) = Json 200 tb \<and>
            (\<forall>r\<in>set reqs. issued_code (fst r) \<noteq> Some code)"
  let ?s1 = "snd (oauth_token sha b accessToken now s)"
  from ok first show gone: "Map_get (authorizationCodes ?s1) code = None"
    by (simp add: oauth_token_success_deletes)
  with ok have "Map_get (authorizationCodes (oauth_run api sha reqs ?s1)) code = None"
    by (simp add: oauth_run_code_absent)
  with second show "fst (oauth_token sha b' accessToken' now' (oauth_run api sha reqs ?s1))
      = Json 400 (ErrorBody ''invalid_grant'' (Some ''Code not found or expired''))"
    by (simp add: oauth_token_absent_code invalid_grant_def)
next
  assume ok: "fst (sse_oauth_token b accessToken now tokens) = Json 200 tb \<and>
            (\<forall>r\<in>set reqs. drawn_uuid (fst r) \<noteq> Some code)"
  let ?t1 = "snd (sse_oauth_token b accessToken now tokens)"
  from ok first show gone: "Map_get ?t1 code = None"
    by (simp add: sse_token_success_deletes)
  with ok have "Map_get (sse_oauth_run api reqs ?t1) code = None"
    by (simp add: sse_run_code_absent)
  with second show "fst (sse_oauth_token b' accessToken' now' (sse_oauth_run api reqs ?t1))
      = Json 400 (ErrorBody ''invalid_grant'' None)"
    by (simp add: sse_token_absent_code)
qed

theorem authorization_code_single_use_witness:
  "Map_get (authorizationCodes (snd (oauth_token rev (code_grant ''c1'' None) ''t1'' 10
       (snd (oauth_authorize test_url_api (scenario_query ''https://example.com/cb'' None) ''c1'' 0
          initial_oauth_state))))) ''c1'' = None \<and>
   fst (oauth_token rev (code_grant ''c1'' None) ''t2'' 30
     (oauth_run test_url_api rev
        [(Protected (Some ''Bearer t1''), 20),
         (Authorize (scenario_query ''https://example.com/cb'' None) ''c2'', 25)]
        (snd (oauth_token rev (code_grant ''c1'' None) ''t1'' 10
          (snd (oauth_authorize test_url_api (scenario_query ''https://example.com/cb'' None) ''c1'' 0
             initial_oauth_state))))))
     = Json 400 (ErrorBody ''invalid_grant'' (Some ''Code not found or expired'')) \<and>
   Map_get (snd (sse_oauth_token (code_grant ''c1'' None) ''t1'' 10
       (snd (sse_oauth_authorize test_url_api (scenario_query ''https://example.com/cb'' None) ''c1'' 0
          [])))) ''c1'' = None \<and>
   fst (sse_oauth_token (code_grant ''c1'' None) ''t2'' 30
     (sse_oauth_run test_url_api
        [(Protected (Some ''Bearer t1''), 20),
         (Authorize (scenario_query ''https://example.com/cb'' None) ''c2'', 25)]
        (snd (sse_oauth_token (code_grant ''c1'' None) ''t1'' 10
          (snd (sse_oauth_authorize test_url_api (scenario_query ''https://example.com/cb'' None) ''c1'' 0
             []))))))
     = Json 400 (ErrorBody ''invalid_grant'' None)"
proof -
  let ?b = "code_grant ''c1'' None"
  let ?q = "scenario_query ''https://example.com/cb'' None"
  let ?reqs = "[(Protected (Some ''Bearer t1''), 20::int), (Authorize ?q ''c2'', 25)]"
  let ?s = "snd (oauth_authorize test_url_api ?q ''c1'' 0 initial_oauth_state)"
  let ?tokens = "snd (sse_oauth_authorize test_url_api ?q ''c1'' 0 [])"
  have g: "b_grant_type ?b = Some ''authorization_code''" "b_code ?b = Some ''c1''"
    by (simp_all add: code_grant_def)
  have later: "\<forall>r\<in>set ?reqs. issued_code (fst r) \<noteq> Some ''c1''"
    "\<forall>r\<in>set ?reqs. drawn_uuid (fst r) \<noteq> Some ''c1''"
    by simp_all
  have ok: "fst (oauth_token rev ?b ''t1'' 10 ?s) = Json 200 (TokenBody ''t1'' ''Bearer'' 3600 ''tmdb:read'')"
    by (simp add: scenario_defs)
  have sse_ok: "fst (sse_oauth_token ?b ''t1'' 10 ?tokens) = Json 200 (TokenBody ''t1'' ''Bearer'' 3600 ''read'')"
    by (simp add: scenario_defs)
  from authorization_code_single_use [OF g g, where sha = rev and accessToken = "''t1''"
      and now = 10 and s = "?s" and reqs = "?reqs" and api = test_url_api
      and accessToken' = "''t2''" and now' = 30]
    ok later
  have one: "Map_get (authorizationCodes (snd (oauth_token rev ?b ''t1'' 10 ?s))) ''c1'' = None \<and>
          fst (oauth_token rev ?b ''t2'' 30
                 (oauth_run test_url_api rev ?reqs (snd (oauth_token rev ?b ''t1'' 10 ?s))))
            = Json 400 (ErrorBody ''invalid_grant'' (Some ''Code not found or expired''))"
    by blast
  from authorization_code_single_use [OF g g, where accessToken = "''t1''"
      and now = 10 and tokens = "?tokens" and reqs = "?reqs" and api = test_url_api
      and accessToken' = "''t2''" and now' = 30]
    sse_ok later
  have two: "Map_get (snd (sse_oauth_token ?b ''t1'' 10 ?tokens)) ''c1'' = None \<and>
          fst (sse_oauth_token ?b ''t2'' 30
                 (sse_oauth_run test_url_api ?reqs (snd (sse_oauth_token ?b ''t1'' 10 ?tokens))))
            = Json 400 (ErrorBody ''invalid_grant'' None)"
    by blast
  from one two show ?thesis by blast
qed

text \<open>
  Claim C9. The Bearer gate of either OAuth server returns the store it was given, whether
  it admits the request or rejects it. The gate of the two-store server admits with the
  record it found, or answers 401 \<open>invalid_token\<close>; the gate of the one-store server admits,
  or answers 401 \<open>unauthorized\<close> or 401 \<open>invalid_token\<close>.
\<close>

theorem requireAuth_leaves_store_unchanged:
  "snd (requireAuth authHeader now s) = s \<and>
   ((\<exists>tokenData. fst (requireAuth authHeader now s) = Admitted tokenData \<and>
        Map_get (accessTokens s) (slice_from 7 (js_String authHeader)) = Some tokenData) \<or>
    fst (requireAuth authHeader now s) = Rejected (Json 401 (ErrorBody ''invalid_token'' None))) \<and>
   snd (sse_requireAuth auth tokens) = tokens \<and>
   (fst (sse_requireAuth auth tokens) = Admitted () \<or>
    fst (sse_requireAuth auth tokens) = Rejected (Json 401 (ErrorBody ''unauthorized'' None)) \<or>
    fst (sse_requireAuth auth tokens) = Rejected (Json 401 (ErrorBody ''invalid_token'' None)))"
  by (simp add: requireAuth_def sse_requireAuth_def split: option.splits)

theorem requireAuth_leaves_store_unchanged_witness:
  "(fst (requireAuth (Some ''Bearer t1'') 20 state_with_token)
      = Admitted \<lparr>at_client_id = ''tmdb-mcp-client'', at_scope = ''tmdb:read'',
                   at_expires_at = 3600010\<rparr> \<and>
    snd (requireAuth (Some ''Bearer t1'') 20 state_with_token) = state_with_token \<and>
    snd (sse_requireAuth (Some ''Bearer t1'') []) = []) \<and>
   (fst (requireAuth None 20 state_with_token) = Rejected (Json 401 (ErrorBody ''invalid_token'' None)) \<and>
    snd (requireAuth None 20 state_with_token) = state_with_token \<and>
    snd (sse_requireAuth None []) = []) \<and>
   (fst (requireAuth (Some ''Bearer t9'') 20 state_with_token)
      = Rejected (Json 401 (ErrorBody ''invalid_token'' None)) \<and>
    snd (requireAuth (Some ''Bearer t9'') 20 state_with_token) = state_with_token \<and>
    snd (sse_requireAuth (Some ''Bearer t9'') []) = [])"
proof -
  have admitted: "fst (requireAuth (Some ''Bearer t1'') 20 state_with_token)
      = Admitted \<lparr>at_client_id = ''tmdb-mcp-client'', at_scope = ''tmdb:read'',
                   at_expires_at = 3600010\<rparr>"
    by (simp add: state_with_token_eq scenario_defs)
  have no_header: "fst (requireAuth None 20 state_with_token)
      = Rejected (Json 401 (ErrorBody ''invalid_token'' None))"
    by (simp add: scenario_defs)
  have unknown: "fst (requireAuth (Some ''Bearer t9'') 20 state_with_token)
      = Rejected (Json 401 (ErrorBody ''invalid_token'' None))"
    by (simp add: state_with_token_eq scenario_defs)
  note with_token = requireAuth_leaves_store_unchanged [of "Some ''Bearer t1''" 20 state_with_token
      "Some ''Bearer t1''" "[]"]
  note without_header = requireAuth_leaves_store_unchanged [of None 20 state_with_token None "[]"]
  note with_unknown = requireAuth_leaves_store_unchanged [of "Some ''Bearer t9''" 20
      state_with_token "Some ''Bearer t9''" "[]"]
  from admitted with_token [THEN conjunct1] with_token [THEN conjunct2, THEN conjunct2, THEN conjunct1]
    no_header without_header [THEN conjunct1]
    without_header [THEN conjunct2, THEN conjunct2, THEN conjunct1]
    unknown with_unknown [THEN conjunct1] with_unknown [THEN conjunct2, THEN conjunct2, THEN conjunct1]
  show ?thesis
    by (intro conjI)
qed









text \<open>
  Claim C2, at an input where it fails: the stored code carries a challenge, the token
  request carries no \<open>code_verifier\<close>, and the exchange succeeds.
\<close>

theorem pkce_absent_verifier_counterexample:
  "Map_get (authorizationCodes
      (snd (oauth_authorize test_url_api (scenario_query ''https://example.com/cb'' (Some ''reifirev''))
         ''c1'' 0 initial_oauth_state))) ''c1''
     = Some \<lparr>ac_client_id = ''tmdb-mcp-client'', ac_redirect_uri = Some ''https://example.com/cb'',
              ac_scope = ''tmdb:read'', ac_code_challenge = Some ''reifirev'',
              ac_code_challenge_method = ''S256'', ac_expires_at = 600000\<rparr> \<and>
   fst (oauth_token rev (code_grant ''c1'' None) ''t1'' 10
     (snd (oauth_authorize test_url_api (scenario_query ''https://example.com/cb'' (Some ''reifirev''))
        ''c1'' 0 initial_oauth_state)))
     = Json 200 (TokenBody ''t1'' ''Bearer'' 3600 ''tmdb:read'')"
  by (simp add: scenario_defs)

text \<open>
  Claim C2 as the code has it. For a stored, unexpired code with a non-empty challenge:
  a non-empty verifier whose digest differs from the challenge is answered with
  \<open>invalid_grant\<close> and the stores stay as they were; a verifier whose digest equals the
  challenge succeeds; an absent or empty verifier skips the test (the guard
  \<open>authData.code_challenge && code_verifier\<close>) and the exchange succeeds.
\<close>

theorem pkce_checked_when_verifier_present:
  assumes grant: "b_grant_type b = Some ''authorization_code''" "b_code b = Some code"
      and stored: "Map_get (authorizationCodes s) code = Some authData"
      and fresh: "\<not> ac_expires_at authData < now"
      and challenge: "ac_code_challenge authData = Some challenge" "challenge \<noteq> []"
  shows "(\<forall>v. b_code_verifier b = Some v \<and> v \<noteq> [] \<and> sha v \<noteq> challenge \<longrightarrow>
            oauth_token sha b accessToken now s
              = (Json 400 (ErrorBody ''invalid_grant'' (Some ''PKCE verification failed'')), s)) \<and>
         (\<forall>v. b_code_verifier b = Some v \<and> sha v = challenge \<longrightarrow>
            fst (oauth_token sha b accessToken now s)
              = Json 200 (TokenBody accessToken ''Bearer'' 3600 (ac_scope authData))) \<and>
         (\<not> truthy (b_code_verifier b) \<longrightarrow>
            fst (oauth_token sha b accessToken now s)
              = Json 200 (TokenBody accessToken ''Bearer'' 3600 (ac_scope authData)))"
proof (intro conjI allI impI)
  fix v assume "b_code_verifier b = Some v \<and> v \<noteq> [] \<and> sha v \<noteq> challenge"
  with assms show "oauth_token sha b accessToken now s
      = (Json 400 (ErrorBody ''invalid_grant'' (Some ''PKCE verification failed'')), s)"
    by (simp add: oauth_token_def pkce_fails_def invalid_grant_def)
next
  fix v assume "b_code_verifier b = Some v \<and> sha v = challenge"
  with assms show "fst (oauth_token sha b accessToken now s)
      = Json 200 (TokenBody accessToken ''Bearer'' 3600 (ac_scope authData))"
    by (simp add: oauth_token_def pkce_fails_def)
next
  assume "\<not> truthy (b_code_verifier b)"
  with assms show "fst (oauth_token sha b accessToken now s)
      = Json 200 (TokenBody accessToken ''Bearer'' 3600 (ac_scope authData))"
    by (auto simp: oauth_token_def pkce_fails_def truthy_def split: option.splits)
qed

theorem pkce_checked_when_verifier_present_witness:
  "oauth_token rev (code_grant ''c1'' (Some ''wrong'')) ''t1'' 10 state_with_challenge
     = (Json 400 (ErrorBody ''invalid_grant'' (Some ''PKCE verification failed'')), state_with_challenge) \<and>
   fst (oauth_token rev (code_grant ''c1'' (Some ''verifier'')) ''t1'' 10 state_with_challenge)
     = Json 200 (TokenBody ''t1'' ''Bearer'' 3600 ''tmdb:read'') \<and>
   fst (oauth_token rev (code_grant ''c1'' (Some [])) ''t1'' 10 state_with_challenge)
     = Json 200 (TokenBody ''t1'' ''Bearer'' 3600 ''tmdb:read'')"
proof -
  let ?authData = "\<lparr>ac_client_id = ''tmdb-mcp-client'', ac_redirect_uri = Some ''https://example.com/cb'',
              ac_scope = ''tmdb:read'', ac_code_challenge = Some ''reifirev'',
              ac_code_challenge_method = ''S256'', ac_expires_at = 600000\<rparr>"
  have grant: "b_grant_type (code_grant ''c1'' v) = Some ''authorization_code''"
    "b_code (code_grant ''c1'' v) = Some ''c1''" for v
    by (simp_all add: code_grant_def)
  have stored: "Map_get (authorizationCodes state_with_challenge) ''c1'' = Some ?authData"
    by (simp add: state_with_challenge_eq)
  have fresh: "\<not> ac_expires_at ?authData < 10"
    by simp
  have challenge: "ac_code_challenge ?authData = Some ''reifirev''" "''reifirev'' \<noteq> []"
    by simp_all
  note inst = pkce_checked_when_verifier_present [OF grant stored fresh challenge,
      where sha = rev and accessToken = "''t1''"]
  have wrong: "b_code_verifier (code_grant ''c1'' (Some ''wrong'')) = Some ''wrong'' \<and> ''wrong'' \<noteq> []
      \<and> rev ''wrong'' \<noteq> ''reifirev''"
    by (simp add: code_grant_def)
  have right: "b_code_verifier (code_grant ''c1'' (Some ''verifier'')) = Some ''verifier''
      \<and> rev ''verifier'' = ''reifirev''"
    by (simp add: code_grant_def)
  have empty: "\<not> truthy (b_code_verifier (code_grant ''c1'' (Some [])))"
    by (simp add: code_grant_def truthy_def)
  from inst [of "Some ''wrong''"] wrong
  have one: "oauth_token rev (code_grant ''c1'' (Some ''wrong'')) ''t1'' 10 state_with_challenge
     = (Json 400 (ErrorBody ''invalid_grant'' (Some ''PKCE verification failed'')), state_with_challenge)"
    by blast
  from inst [of "Some ''verifier''"] right
  have two: "fst (oauth_token rev (code_grant ''c1'' (Some ''verifier'')) ''t1'' 10 state_with_challenge)
     = Json 200 (TokenBody ''t1'' ''Bearer'' 3600 (ac_scope ?authData))"
    by blast
  from inst [of "Some []"] empty
  have three: "fst (oauth_token rev (code_grant ''c1'' (Some [])) ''t1'' 10 state_with_challenge)
     = Json 200 (TokenBody ''t1'' ''Bearer'' 3600 (ac_scope ?authData))"
    by blast
  from one two three show ?thesis by simp
qed

text \<open>
  Claim C10. The Authorization Endpoint stores the record under the drawn code before it
  parses \<open>redirect_uri\<close>: the record is in the store after every request, a code that
  was not a key before makes the store one entry larger, and a \<open>redirect_uri\<close> that does
  not parse is answered 400 \<open>invalid_redirect_uri\<close> with the record still stored.
\<close>

theorem invalid_redirect_still_stores_code:
  "Map_get (authorizationCodes (snd (oauth_authorize api q authCode now s))) authCode
     = Some \<lparr>ac_client_id = or_else (q_client_id q) DEFAULT_CLIENT_client_id,
              ac_redirect_uri = q_redirect_uri q,
              ac_scope = default_to (q_scope q) ''tmdb:read'',
              ac_code_challenge = q_code_challenge q,
              ac_code_challenge_method = default_to (q_code_challenge_method q) ''S256'',
              ac_expires_at = now + 600000\<rparr> \<and>
   (authCode \<notin> fst ` set (authorizationCodes s) \<longrightarrow>
      length (authorizationCodes (snd (oauth_authorize api q authCode now s)))
        = Suc (length (authorizationCodes s))) \<and>
   (new_URL api (js_String (q_redirect_uri q)) = Inl message \<longrightarrow>
      fst (oauth_authorize api q authCode now s)
        = Json 400 (ErrorBody ''invalid_redirect_uri'' (Some message)))"
proof -
  let ?r = "\<lparr>ac_client_id = or_else (q_client_id q) DEFAULT_CLIENT_client_id,
              ac_redirect_uri = q_redirect_uri q,
              ac_scope = default_to (q_scope q) ''tmdb:read'',
              ac_code_challenge = q_code_challenge q,
              ac_code_challenge_method = default_to (q_code_challenge_method q) ''S256'',
              ac_expires_at = now + 600000\<rparr>"
  have store: "authorizationCodes (snd (oauth_authorize api q authCode now s))
      = Map_set authCode ?r (authorizationCodes s)"
    by (simp add: oauth_authorize_def Let_def split: sum.splits)
  have present: "Map_get (Map_set authCode ?r (authorizationCodes s)) authCode = Some ?r"
    by (simp add: update_conv')
  have grows: "length (Map_set authCode ?r (authorizationCodes s)) = Suc (length (authorizationCodes s))"
    if "authCode \<notin> fst ` set (authorizationCodes s)"
    using that by (simp add: Map_set_fresh)
  have answer: "fst (oauth_authorize api q authCode now s)
      = Json 400 (ErrorBody ''invalid_redirect_uri'' (Some message))"
    if "new_URL api (js_String (q_redirect_uri q)) = Inl message"
    using that by (simp add: oauth_authorize_def Let_def)
  from store present grows answer show ?thesis by simp
qed

theorem invalid_redirect_still_stores_code_witness:
  "Map_get (authorizationCodes
      (snd (oauth_authorize test_url_api (scenario_query ''not-a-url'' None) ''c2'' 20 state_with_token))) ''c2''
     = Some \<lparr>ac_client_id = ''tmdb-mcp-client'', ac_redirect_uri = Some ''not-a-url'',
              ac_scope = ''tmdb:read'', ac_code_challenge = None,
              ac_code_challenge_method = ''S256'', ac_expires_at = 600020\<rparr> \<and>
   length (authorizationCodes
      (snd (oauth_authorize test_url_api (scenario_query ''not-a-url'' None) ''c2'' 20 state_with_challenge)))
     = Suc (length (authorizationCodes state_with_challenge)) \<and>
   fst (oauth_authorize test_url_api (scenario_query ''not-a-url'' None) ''c2'' 20 state_with_challenge)
     = Json 400 (ErrorBody ''invalid_redirect_uri'' (Some ''Invalid URL''))"
proof -
  have fresh: "''c2'' \<notin> fst ` set (authorizationCodes state_with_challenge)"
    by (simp add: state_with_challenge_eq)
  have fails: "new_URL test_url_api (js_String (q_redirect_uri (scenario_query ''not-a-url'' None)))
      = Inl ''Invalid URL''"
    by (simp add: scenario_defs)
  from invalid_redirect_still_stores_code [of test_url_api "scenario_query ''not-a-url'' None"
      "''c2''" 20 state_with_token]
  have one: "Map_get (authorizationCodes
      (snd (oauth_authorize test_url_api (scenario_query ''not-a-url'' None) ''c2'' 20 state_with_token))) ''c2''
     = Some \<lparr>ac_client_id = ''tmdb-mcp-client'', ac_redirect_uri = Some ''not-a-url'',
              ac_scope = ''tmdb:read'', ac_code_challenge = None,
              ac_code_challenge_method = ''S256'', ac_expires_at = 600020\<rparr>"
    by (simp add: scenario_query_def or_else_def default_to_def DEFAULT_CLIENT_client_id_def)
  from invalid_redirect_still_stores_code [of test_url_api "scenario_query ''not-a-url'' None"
      "''c2''" 20 state_with_challenge "''Invalid URL''"] fresh fails
  have two: "length (authorizationCodes
      (snd (oauth_authorize test_url_api (scenario_query ''not-a-url'' None) ''c2'' 20 state_with_challenge)))
     = Suc (length (authorizationCodes state_with_challenge)) \<and>
   fst (oauth_authorize test_url_api (scenario_query ''not-a-url'' None) ''c2'' 20 state_with_challenge)
     = Json 400 (ErrorBody ''invalid_redirect_uri'' (Some ''Invalid URL''))"
    by blast
  from one two show ?thesis by blast
qed

text \<open>
  Claim C4, where the code departs from it. In the one-store server \<open>new URL(redirect_uri)\<close>
  stands outside any \<open>try\<close>: on a \<open>redirect_uri\<close> that does not parse the handler throws
  and sends no 400 response. The two-store server catches the same exception and answers
  400 \<open>invalid_redirect_uri\<close>.
\<close>

theorem sse_authorize_malformed_redirect_throws:
  assumes "new_URL api (js_String (q_redirect_uri q)) = Inl message"
  shows "fst (sse_oauth_authorize api q code now tokens) = Threw message \<and>
         fst (oauth_authorize api q code now s)
           = Json 400 (ErrorBody ''invalid_redirect_uri'' (Some message))"
  using assms by (simp add: sse_oauth_authorize_def oauth_authorize_def Let_def)

theorem sse_authorize_malformed_redirect_throws_witness:
  "fst (sse_oauth_authorize test_url_api (scenario_query ''not-a-url'' None) ''c1'' 0 [])
     = Threw ''Invalid URL'' \<and>
   fst (oauth_authorize test_url_api (scenario_query ''not-a-url'' None) ''c1'' 0 initial_oauth_state)
     = Json 400 (ErrorBody ''invalid_redirect_uri'' (Some ''Invalid URL''))"
proof -
  have fails: "new_URL test_url_api (js_String (q_redirect_uri (scenario_query ''not-a-url'' None)))
      = Inl ''Invalid URL''"
    by (simp add: scenario_defs)
  show ?thesis
    by (rule sse_authorize_malformed_redirect_throws [OF fails])
qed

section \<open>Properties of the session registries\<close>

lemma entries_of_distinct_keys:
  "distinct (map fst m) \<Longrightarrow> length (filter (\<lambda>e. fst e = k) m) \<le> 1"
  by (induction m) (auto simp: filter_empty_conv image_iff)

lemma mcp_step_distinct:
  "distinct (map fst transports) \<Longrightarrow> distinct (map fst (mcp_step r transports))"
  by (cases r)
     (auto simp: mcp_get_def mcp_post_def Let_def distinct_update split: js_property.splits)

lemma mcp_run_distinct:
  "distinct (map fst transports) \<Longrightarrow> distinct (map fst (mcp_run reqs transports))"
  unfolding mcp_run_def
  by (induction reqs arbitrary: transports) (simp_all add: mcp_step_distinct)

lemma sse_step_distinct:
  "distinct (map fst transports) \<Longrightarrow> distinct (map fst (sse_step e transports))"
  by (cases e)
     (auto simp: sse_get_def sse_close_def messages_post_def Let_def distinct_update
        distinct_delete split: js_property.splits)

lemma sse_run_distinct:
  "distinct (map fst transports) \<Longrightarrow> distinct (map fst (sse_run events transports))"
  unfolding sse_run_def
  by (induction events arbitrary: transports) (simp_all add: sse_step_distinct)

text \<open>
  Claim C5, at an input where it fails: two \<open>GET /mcp\<close> requests carry the session id
  \<open>s1\<close>. The second is handed to the transport the first one created, and the registry
  still maps \<open>s1\<close> to that transport, not to a newer one.
\<close>

theorem second_open_reuses_counterexample:
  "mcp_get (Some ''s1'') ''u2'' ''second'' (snd (mcp_get (Some ''s1'') ''u1'' ''first'' []))
     = (HandleGetRequest ''s1'' ''first'', [(''s1'', ''first'')])"
  by (simp add: mcp_get_def get_property_def or_else_def Object_prototype_keys_def Let_def)

text \<open>
  Claim C5 as the code has it. Starting from the empty registry, after any sequence of
  requests the registry holds at most one entry for a session id, in the streamable-HTTP
  server and in the SSE server. In the streamable-HTTP server a second open with the same
  id reuses the registered transport: the registry is left as it is and the request is
  handed to the transport already there (the one the first open created, when the id was
  not registered before). In the SSE server every open stores its new transport under the
  transport's own id, in the place of an entry with that id.
\<close>

theorem registry_one_entry_per_session:
  "length (filter (\<lambda>e. fst e = session) (mcp_run reqs [])) \<le> 1 \<and>
   length (filter (\<lambda>e. fst e = session) (sse_run events [])) \<le> 1 \<and>
   (session \<noteq> [] \<and> session \<notin> set Object_prototype_keys \<longrightarrow>
      (\<exists>transport.
          Map_get (snd (mcp_get (Some session) uuid_a created_a transports)) session = Some transport \<and>
          (Map_get transports session = None \<longrightarrow> transport = created_a) \<and>
          mcp_get (Some session) uuid_b created_b (snd (mcp_get (Some session) uuid_a created_a transports))
            = (HandleGetRequest session transport,
               snd (mcp_get (Some session) uuid_a created_a transports)))) \<and>
   Map_get (sse_get session stream_b (sse_get session stream_a registry)) session
     = Some \<lparr>sessionId = session, res = stream_b\<rparr>"
proof (intro conjI impI)
  show "length (filter (\<lambda>e. fst e = session) (mcp_run reqs [])) \<le> 1"
    by (rule entries_of_distinct_keys) (simp add: mcp_run_distinct)
  show "length (filter (\<lambda>e. fst e = session) (sse_run events [])) \<le> 1"
    by (rule entries_of_distinct_keys) (simp add: sse_run_distinct)
  show "Map_get (sse_get session stream_b (sse_get session stream_a registry)) session
     = Some \<lparr>sessionId = session, res = stream_b\<rparr>"
    by (simp add: sse_get_def update_conv')
next
  assume ok: "session \<noteq> [] \<and> session \<notin> set Object_prototype_keys"
  show "\<exists>transport.
          Map_get (snd (mcp_get (Some session) uuid_a created_a transports)) session = Some transport \<and>
          (Map_get transports session = None \<longrightarrow> transport = created_a) \<and>
          mcp_get (Some session) uuid_b created_b (snd (mcp_get (Some session) uuid_a created_a transports))
            = (HandleGetRequest session transport,
               snd (mcp_get (Some session) uuid_a created_a transports))"
  proof (cases "Map_get transports session")
    case None
    with ok show ?thesis
      by (simp add: mcp_get_def get_property_def or_else_def update_conv')
  next
    case (Some t)
    with ok show ?thesis
      by (simp add: mcp_get_def get_property_def or_else_def)
  qed
qed

theorem registry_one_entry_per_session_witness:
  "length (filter (\<lambda>e. fst e = ''s1'')
     (mcp_run [GET (Some ''s1'') ''u1'' ''first'', GET (Some ''s1'') ''u2'' ''second'',
               POST None ''u3'' ''third''] [])) \<le> 1 \<and>
   length (filter (\<lambda>e. fst e = ''s1'')
     (sse_run [Open ''s1'' ''stream1'', Open ''s1'' ''stream2'', Close ''s2''] [])) \<le> 1 \<and>
   mcp_get (Some ''s1'') ''u2'' ''second'' (snd (mcp_get (Some ''s1'') ''u1'' ''first'' []))
     = (HandleGetRequest ''s1'' ''first'', snd (mcp_get (Some ''s1'') ''u1'' ''first'' [])) \<and>
   Map_get (sse_get ''s1'' ''stream2'' (sse_get ''s1'' ''stream1'' [])) ''s1''
     = Some \<lparr>sessionId = ''s1'', res = ''stream2''\<rparr>"
proof -
  have plain: "''s1'' \<noteq> [] \<and> ''s1'' \<notin> set Object_prototype_keys"
    by (simp add: Object_prototype_keys_def)
  have unregistered: "Map_get ([] :: (string, string) js_map) ''s1'' = None"
    by simp
  note inst = registry_one_entry_per_session [where session = "''s1''"
      and reqs = "[GET (Some ''s1'') ''u1'' ''first'', GET (Some ''s1'') ''u2'' ''second'',
                   POST None ''u3'' ''third'']"
      and events = "[Open ''s1'' ''stream1'', Open ''s1'' ''stream2'', Close ''s2'']"
      and uuid_a = "''u1''" and created_a = "''first''" and uuid_b = "''u2''"
      and created_b = "''second''" and transports = "[]" and stream_a = "''stream1''"
      and stream_b = "''stream2''" and registry = "[]"]
  note one = inst [THEN conjunct1]
  note two = inst [THEN conjunct2, THEN conjunct1]
  note three = inst [THEN conjunct2, THEN conjunct2, THEN conjunct1, THEN mp, OF plain]
  note four = inst [THEN conjunct2, THEN conjunct2, THEN conjunct2]
  from three obtain transport where
    t: "Map_get ([] :: (string, string) js_map) ''s1'' = None \<longrightarrow> transport = ''first''"
    and reuse: "mcp_get (Some ''s1'') ''u2'' ''second'' (snd (mcp_get (Some ''s1'') ''u1'' ''first'' []))
      = (HandleGetRequest ''s1'' transport, snd (mcp_get (Some ''s1'') ''u1'' ''first'' []))"
    by (elim exE conjE)
  from t unregistered have "transport = ''first''"
    by (rule mp)
  with reuse have reused: "mcp_get (Some ''s1'') ''u2'' ''second'' (snd (mcp_get (Some ''s1'') ''u1'' ''first'' []))
      = (HandleGetRequest ''s1'' ''first'', snd (mcp_get (Some ''s1'') ''u1'' ''first'' []))"
    by (simp only:)
  from one two reused four show ?thesis
    by (intro conjI)
qed

text \<open>
  Claim C6, at an input where it fails: \<open>POST /mcp\<close> with a session id that is not
  registered creates a transport, registers it and hands the command to it.
\<close>

theorem post_unknown_session_counterexample:
  "mcp_post (Some ''ghost'') ''u1'' ''created'' []
     = (HandlePostRequest ''ghost'' ''created'', [(''ghost'', ''created'')])"
  by (simp add: mcp_post_def get_property_def or_else_def Object_prototype_keys_def Let_def)

text \<open>
  Claim C6 as the code has it. \<open>POST /messages\<close> of the SSE server answers a command whose
  \<open>sessionId\<close> has no entry in the registry (never opened, or removed when its stream
  closed) with 400 \<open>No transport found for sessionId\<close>, hands it to no transport and
  leaves the registry as it is. \<open>POST /mcp\<close> of the streamable-HTTP server treats an
  unregistered session id as a new session: it registers a new transport under the id and
  hands the command to it.
\<close>

theorem post_to_unregistered_session:
  "(Map_get transports (js_String query_sessionId) = None \<longrightarrow>
      messages_post query_sessionId transports
        = (Respond (Send 400 ''No transport found for sessionId''), transports)) \<and>
   messages_post (Some session) (sse_close session transports)
     = (Respond (Send 400 ''No transport found for sessionId''), sse_close session transports) \<and>
   (session \<noteq> [] \<and> session \<notin> set Object_prototype_keys \<and> Map_get registry session = None \<longrightarrow>
      mcp_post (Some session) uuid created registry
        = (HandlePostRequest session created, registry @ [(session, created)]))"
proof (intro conjI impI)
  assume "Map_get transports (js_String query_sessionId) = None"
  then show "messages_post query_sessionId transports
        = (Respond (Send 400 ''No transport found for sessionId''), transports)"
    by (simp add: messages_post_def get_property_def)
next
  have "Map_get (sse_close session transports) session = None"
    by (simp add: sse_close_def delete_conv')
  then show "messages_post (Some session) (sse_close session transports)
     = (Respond (Send 400 ''No transport found for sessionId''), sse_close session transports)"
    by (simp add: messages_post_def get_property_def js_String_def)
next
  assume a: "session \<noteq> [] \<and> session \<notin> set Object_prototype_keys \<and> Map_get registry session = None"
  then have "session \<notin> fst ` set registry"
    by (simp add: map_of_eq_None_iff)
  with a show "mcp_post (Some session) uuid created registry
        = (HandlePostRequest session created, registry @ [(session, created)])"
    by (simp add: mcp_post_def get_property_def or_else_def Map_set_fresh)
qed

theorem post_to_unregistered_session_witness:
  "messages_post (Some ''ghost'') (sse_get ''s1'' ''stream1'' [])
     = (Respond (Send 400 ''No transport found for sessionId''), sse_get ''s1'' ''stream1'' []) \<and>
   messages_post (Some ''s1'') (sse_close ''s1'' (sse_get ''s1'' ''stream1'' []))
     = (Respond (Send 400 ''No transport found for sessionId''),
        sse_close ''s1'' (sse_get ''s1'' ''stream1'' [])) \<and>
   mcp_post (Some ''ghost'') ''u1'' ''created'' [(''s1'', ''first'')]
     = (HandlePostRequest ''ghost'' ''created'', [(''s1'', ''first'')] @ [(''ghost'', ''created'')])"
proof -
  have unknown: "Map_get (sse_get ''s1'' ''stream1'' []) (js_String (Some ''ghost'')) = None"
    by (simp add: sse_get_def js_String_def)
  have plain: "''ghost'' \<noteq> [] \<and> ''ghost'' \<notin> set Object_prototype_keys \<and>
      Map_get [(''s1'', ''first'')] ''ghost'' = None"
    by (simp add: Object_prototype_keys_def)
  note inst = post_to_unregistered_session [where query_sessionId = "Some ''ghost''"
      and transports = "sse_get ''s1'' ''stream1'' []" and session = "''ghost''"
      and registry = "[(''s1'', ''first'')]" and uuid = "''u1''" and created = "''created''"]
  note closed = post_to_unregistered_session [where session = "''s1''"
      and transports = "sse_get ''s1'' ''stream1'' []", THEN conjunct2, THEN conjunct1]
  note one = inst [THEN conjunct1, THEN mp, OF unknown]
  note three = inst [THEN conjunct2, THEN conjunct2, THEN mp, OF plain]
  from one closed three show ?thesis
    by (intro conjI)
qed

section \<open>Properties of the tool dispatchers\<close>

lemmas tool_defs = test_web_api_def search_args_def fetch_args_def chatgpt_CallTool_def
  chatgpt_try_def chatgpt_search_url_def chatgpt_fetch_url_def fetch_json_def js_String_def
  TMDB_BASE_URL_def

text \<open>
  Claim C7, at an input where it fails: the collaborator answers the search with status
  401 and a body that parses as JSON. The handler does not look at the status and returns
  the body as an ordinary result, with no \<open>isError\<close>.
\<close>

theorem non_2xx_is_not_an_error_counterexample:
  "chatgpt_CallTool ''key'' (test_web_api (Response 401 (Inr ''Invalid API key'')) id) ''search''
       (search_args ''fight club'')
     = Inr \<lparr>content = [Text ''Invalid API key''], isError = None\<rparr>"
  by (simp add: tool_defs)

lemma chatgpt_try_search:
  assumes "encodeURIComponent api (js_String (a_query a)) = Inr query"
  shows "chatgpt_try key api ''search'' (Some a)
     = (case fetch_json api (chatgpt_search_url key query) of
          Inl message \<Rightarrow> Inl message
        | Inr data \<Rightarrow> Inr \<lparr>content = [Text (JSON_stringify api data)], isError = None\<rparr>)"
  using assms by (simp add: chatgpt_try_def)

lemma chatgpt_try_fetch:
  "chatgpt_try key api ''fetch'' (Some a)
     = (case fetch_json api (chatgpt_fetch_url key (js_String (a_id a))) of
          Inl message \<Rightarrow> Inl message
        | Inr data \<Rightarrow> Inr \<lparr>content = [Text (JSON_stringify api data)], isError = None\<rparr>)"
  by (simp add: chatgpt_try_def)

lemma fetch_json_fails:
  "fetch api url = Rejects message \<or> fetch api url = Response status (Inl message)
     \<Longrightarrow> fetch_json api url = Inl message"
  by (auto simp: fetch_json_def)

lemma chatgpt_CallTool_cases:
  "chatgpt_CallTool key api name args = Inr result \<longleftrightarrow>
     (chatgpt_try key api name args = Inr result \<or>
      (\<exists>message. chatgpt_try key api name args = Inl message \<and>
         result = \<lparr>content = [Text (''Error: '' @ message)], isError = Some True\<rparr>))"
  by (auto simp: chatgpt_CallTool_def split: sum.splits)

lemma chatgpt_try_no_error_flag:
  "chatgpt_try key api name args = Inr result \<Longrightarrow> isError result = None"
  by (auto simp: chatgpt_try_def split: if_splits option.splits sum.splits)

text \<open>
  Claim C7 as the code has it, for the dispatcher that answers in band. The handler never
  throws. When the outbound call rejects (a network error) or the body of the response
  does not parse as JSON, the result is \<open>isError: true\<close> with the one text block
  \<open>Error: \<close> followed by the message, which is not empty; every result with \<open>isError: true\<close>
  has that shape. A response whose body parses is returned as an ordinary result whatever
  its status, by \<open>search\<close> and by \<open>fetch\<close>.
\<close>

theorem chatgpt_failure_becomes_error_result:
  "(\<exists>result. chatgpt_CallTool key api name args = Inr result) \<and>
   (\<forall>result. chatgpt_CallTool key api name args = Inr result \<and> isError result = Some True \<longrightarrow>
      (\<exists>message. content result = [Text (''Error: '' @ message)])) \<and>
   (encodeURIComponent api (js_String (a_query a)) = Inr query \<and>
    (fetch api (chatgpt_search_url key query) = Rejects message \<or>
     fetch api (chatgpt_search_url key query) = Response status (Inl message)) \<longrightarrow>
      chatgpt_CallTool key api ''search'' (Some a)
        = Inr \<lparr>content = [Text (''Error: '' @ message)], isError = Some True\<rparr>) \<and>
   (fetch api (chatgpt_fetch_url key (js_String (a_id a))) = Rejects message \<or>
    fetch api (chatgpt_fetch_url key (js_String (a_id a))) = Response status (Inl message) \<longrightarrow>
      chatgpt_CallTool key api ''fetch'' (Some a)
        = Inr \<lparr>content = [Text (''Error: '' @ message)], isError = Some True\<rparr>) \<and>
   (encodeURIComponent api (js_String (a_query a)) = Inr query \<and>
    fetch api (chatgpt_search_url key query) = Response status (Inr data) \<longrightarrow>
      chatgpt_CallTool key api ''search'' (Some a)
        = Inr \<lparr>content = [Text (JSON_stringify api data)], isError = None\<rparr>) \<and>
   (fetch api (chatgpt_fetch_url key (js_String (a_id a))) = Response status (Inr data) \<longrightarrow>
      chatgpt_CallTool key api ''fetch'' (Some a)
        = Inr \<lparr>content = [Text (JSON_stringify api data)], isError = None\<rparr>)"
proof (intro conjI allI impI)
  show "\<exists>result. chatgpt_CallTool key api name args = Inr result"
    by (cases "chatgpt_try key api name args") (simp_all add: chatgpt_CallTool_def)
next
  fix result
  assume "chatgpt_CallTool key api name args = Inr result \<and> isError result = Some True"
  then show "\<exists>message. content result = [Text (''Error: '' @ message)]"
    by (auto simp: chatgpt_CallTool_cases dest: chatgpt_try_no_error_flag)
next
  assume a: "encodeURIComponent api (js_String (a_query a)) = Inr query \<and>
    (fetch api (chatgpt_search_url key query) = Rejects message \<or>
     fetch api (chatgpt_search_url key query) = Response status (Inl message))"
  then have "fetch_json api (chatgpt_search_url key query) = Inl message"
    by (auto simp: fetch_json_def)
  with a show "chatgpt_CallTool key api ''search'' (Some a)
        = Inr \<lparr>content = [Text (''Error: '' @ message)], isError = Some True\<rparr>"
    by (simp add: chatgpt_CallTool_def chatgpt_try_search)
next
  assume "fetch api (chatgpt_fetch_url key (js_String (a_id a))) = Rejects message \<or>
    fetch api (chatgpt_fetch_url key (js_String (a_id a))) = Response status (Inl message)"
  then have "fetch_json api (chatgpt_fetch_url key (js_String (a_id a))) = Inl message"
    by (rule fetch_json_fails)
  then show "chatgpt_CallTool key api ''fetch'' (Some a)
        = Inr \<lparr>content = [Text (''Error: '' @ message)], isError = Some True\<rparr>"
    by (simp add: chatgpt_CallTool_def chatgpt_try_fetch)
next
  assume a: "encodeURIComponent api (js_String (a_query a)) = Inr query \<and>
    fetch api (chatgpt_search_url key query) = Response status (Inr data)"
  then have "fetch_json api (chatgpt_search_url key query) = Inr data"
    by (simp add: fetch_json_def)
  with a show "chatgpt_CallTool key api ''search'' (Some a)
        = Inr \<lparr>content = [Text (JSON_stringify api data)], isError = None\<rparr>"
    by (simp add: chatgpt_CallTool_def chatgpt_try_search)
next
  assume "fetch api (chatgpt_fetch_url key (js_String (a_id a))) = Response status (Inr data)"
  then have "fetch_json api (chatgpt_fetch_url key (js_String (a_id a))) = Inr data"
    by (simp add: fetch_json_def)
  then show "chatgpt_CallTool key api ''fetch'' (Some a)
        = Inr \<lparr>content = [Text (JSON_stringify api data)], isError = None\<rparr>"
    by (simp add: chatgpt_CallTool_def chatgpt_try_fetch)
qed

theorem chatgpt_failure_becomes_error_result_witness:
  "chatgpt_CallTool ''key'' (test_web_api (Rejects ''getaddrinfo ENOTFOUND'') id) ''search''
       (search_args ''fight club'')
     = Inr \<lparr>content = [Text (''Error: '' @ ''getaddrinfo ENOTFOUND'')], isError = Some True\<rparr> \<and>
   chatgpt_CallTool ''key'' (test_web_api (Response 200 (Inl ''Unexpected token <'')) id) ''fetch''
       (fetch_args ''550'')
     = Inr \<lparr>content = [Text (''Error: '' @ ''Unexpected token <'')], isError = Some True\<rparr> \<and>
   chatgpt_CallTool ''key'' (test_web_api (Response 404 (Inr ''not found'')) id) ''search''
       (search_args ''fight club'')
     = Inr \<lparr>content = [Text ''not found''], isError = None\<rparr> \<and>
   chatgpt_CallTool ''key'' (test_web_api (Response 404 (Inr ''not found'')) id) ''fetch''
       (fetch_args ''550'')
     = Inr \<lparr>content = [Text ''not found''], isError = None\<rparr>"
proof -
  let ?down = "test_web_api (Rejects ''getaddrinfo ENOTFOUND'') id :: (string, string) web_api"
  let ?html = "test_web_api (Response 200 (Inl ''Unexpected token <'')) id :: (string, string) web_api"
  let ?missing = "test_web_api (Response 404 (Inr ''not found'')) id :: (string, string) web_api"
  let ?a = "\<lparr>a_query = Some ''fight club'', a_id = None\<rparr>"
  let ?f = "\<lparr>a_query = None, a_id = Some ''550''\<rparr>"
  have down: "encodeURIComponent ?down (js_String (a_query ?a)) = Inr ''fight club'' \<and>
      (fetch ?down (chatgpt_search_url ''key'' ''fight club'') = Rejects ''getaddrinfo ENOTFOUND'' \<or>
       fetch ?down (chatgpt_search_url ''key'' ''fight club'')
         = Response 0 (Inl ''getaddrinfo ENOTFOUND''))"
    by (simp add: test_web_api_def js_String_def)
  have html: "fetch ?html (chatgpt_fetch_url ''key'' (js_String (a_id ?f))) = Rejects ''Unexpected token <'' \<or>
      fetch ?html (chatgpt_fetch_url ''key'' (js_String (a_id ?f)))
        = Response 200 (Inl ''Unexpected token <'')"
    by (simp add: test_web_api_def)
  have missing: "encodeURIComponent ?missing (js_String (a_query ?a)) = Inr ''fight club'' \<and>
      fetch ?missing (chatgpt_search_url ''key'' ''fight club'') = Response 404 (Inr ''not found'')"
    by (simp add: test_web_api_def js_String_def)
  note one = chatgpt_failure_becomes_error_result [where key = "''key''" and api = "?down"
      and a = "?a" and query = "''fight club''" and message = "''getaddrinfo ENOTFOUND''"
      and status = 0, THEN conjunct2, THEN conjunct2, THEN conjunct1, THEN mp, OF down]
  note two = chatgpt_failure_becomes_error_result [where key = "''key''" and api = "?html"
      and a = "?f" and message = "''Unexpected token <''" and status = 200,
      THEN conjunct2, THEN conjunct2, THEN conjunct2, THEN conjunct1, THEN mp, OF html]
  note three = chatgpt_failure_becomes_error_result [where key = "''key''" and api = "?missing"
      and a = "?a" and query = "''fight club''" and status = 404 and data = "''not found''",
      THEN conjunct2, THEN conjunct2, THEN conjunct2, THEN conjunct2, THEN conjunct1, THEN mp,
      OF missing]
  have missing_movie: "fetch ?missing (chatgpt_fetch_url ''key'' (js_String (a_id ?f)))
      = Response 404 (Inr ''not found'')"
    by (simp add: test_web_api_def)
  note four = chatgpt_failure_becomes_error_result [where key = "''key''" and api = "?missing"
      and a = "?f" and status = 404 and data = "''not found''",
      THEN conjunct2, THEN conjunct2, THEN conjunct2, THEN conjunct2, THEN conjunct2, THEN mp,
      OF missing_movie]
  from one two three four show ?thesis
    by (simp add: search_args_def fetch_args_def test_web_api_def)
qed

lemma map_entries_length:
  "map_entries Number_toString movies = Inr entries \<Longrightarrow> length entries = length movies"
  by (induction movies arbitrary: entries) (auto split: sum.splits)

lemma search_results_at_most_10:
  "search_results Number_toString data = Inr entries \<Longrightarrow> length entries \<le> 10"
  by (auto simp: search_results_def split: option.splits dest: map_entries_length)

lemma release_year_dashed:
  assumes "year \<noteq> []" and "CHR ''-'' \<notin> set year"
  shows "release_year (Some (year @ CHR ''-'' # rest)) = year"
proof -
  have "takeWhile (\<lambda>c. c \<noteq> CHR ''-'') (year @ CHR ''-'' # rest) = year"
    using assms(2) by (auto simp: takeWhile_tail)
  with assms(1) show ?thesis
    by (simp add: release_year_def)
qed

lemma search_results_single:
  "search_results Number_toString
     \<lparr>results = Some [\<lparr>m_id = Some i, m_title = Some title, m_release_date = release_date\<rparr>]\<rparr>
     = Inr [\<lparr>e_id = Number_toString i,
             e_title = title @ '' ('' @ release_year release_date @ '')'',
             e_url = ''https://www.themoviedb.org/movie/'' @ Number_toString i\<rparr>]"
  by (simp add: search_results_def to_entry_def js_String_def)

lemma search_tool_result:
  assumes "search_tool key_required failed_prefix Number_toString env_key api args = Inr result"
  shows "\<exists>entries. content result = [Text (JSON_stringify api entries)] \<and> length entries \<le> 10"
  using assms
  by (auto simp: search_tool_def search_try_def split: if_splits option.splits sum.splits
      dest: search_results_at_most_10)

lemma search_tool_answer:
  assumes "truthy env_key"
      and "encodeURIComponent api (js_String (a_query a)) = Inr query"
      and "fetch api (''https://api.themoviedb.org/3/search/movie?api_key='' @ js_String env_key
                       @ ''&query='' @ query) = Response status (Inr data)"
      and "search_results Number_toString data = Inr entries"
  shows "search_tool key_required failed_prefix Number_toString env_key api (Some a)
           = Inr \<lparr>content = [Text (JSON_stringify api entries)], isError = None\<rparr>"
  using assms by (simp add: search_tool_def search_try_def fetch_json_def)

text \<open>
  Claim C8. When the collaborator answers the search with one record, the \<open>search\<close> tool of
  both servers returns the one entry whose \<open>id\<close> is the record's id as
  \<open>Number.prototype.toString\<close> renders it, whose \<open>title\<close> is the record's title followed by
  the release year in parentheses, and whose \<open>url\<close> is \<open>https://www.themoviedb.org/movie/\<close>
  followed by the same rendering of the id. The year is what stands before the first \<open>-\<close>
  of the release date, and \<open>Unknown\<close> when the date is absent. Whatever the call and
  whatever the collaborator answers, a result of the tool holds at most 10 entries.
\<close>

theorem search_maps_one_record_to_one_entry:
  "(truthy env_key \<and>
    encodeURIComponent api (js_String (a_query a)) = Inr query \<and>
    fetch api (''https://api.themoviedb.org/3/search/movie?api_key='' @ js_String env_key
                 @ ''&query='' @ query)
      = Response status
          (Inr \<lparr>results = Some [\<lparr>m_id = Some i, m_title = Some title,
                                  m_release_date = release_date\<rparr>]\<rparr>) \<longrightarrow>
      final_search Number_toString env_key api (Some a)
        = Inr \<lparr>content = [Text (JSON_stringify api
              [\<lparr>e_id = Number_toString i,
                e_title = title @ '' ('' @ release_year release_date @ '')'',
                e_url = ''https://www.themoviedb.org/movie/'' @ Number_toString i\<rparr>])],
               isError = None\<rparr> \<and>
      sse_oauth_search Number_toString env_key api (Some a)
        = final_search Number_toString env_key api (Some a)) \<and>
   release_year None = ''Unknown'' \<and>
   (year \<noteq> [] \<and> CHR ''-'' \<notin> set year \<longrightarrow> release_year (Some (year @ CHR ''-'' # rest)) = year) \<and>
   (\<forall>result. final_search Number_toString env_key api args = Inr result \<or>
             sse_oauth_search Number_toString env_key api args = Inr result \<longrightarrow>
      (\<exists>entries. content result = [Text (JSON_stringify api entries)] \<and> length entries \<le> 10))"
proof (intro conjI allI impI)
  assume a: "truthy env_key \<and>
    encodeURIComponent api (js_String (a_query a)) = Inr query \<and>
    fetch api (''https://api.themoviedb.org/3/search/movie?api_key='' @ js_String env_key
                 @ ''&query='' @ query)
      = Response status
          (Inr \<lparr>results = Some [\<lparr>m_id = Some i, m_title = Some title,
                                  m_release_date = release_date\<rparr>]\<rparr>)"
  note key = a [THEN conjunct1]
  note encoded = a [THEN conjunct2, THEN conjunct1]
  note answer = a [THEN conjunct2, THEN conjunct2]
  note entries = search_results_single [of Number_toString i title release_date]
  show final: "final_search Number_toString env_key api (Some a)
      = Inr \<lparr>content = [Text (JSON_stringify api
            [\<lparr>e_id = Number_toString i,
              e_title = title @ '' ('' @ release_year release_date @ '')'',
              e_url = ''https://www.themoviedb.org/movie/'' @ Number_toString i\<rparr>])],
             isError = None\<rparr>"
    unfolding final_search_def by (rule search_tool_answer [OF key encoded answer entries])
  show "sse_oauth_search Number_toString env_key api (Some a)
      = final_search Number_toString env_key api (Some a)"
    unfolding final sse_oauth_search_def by (rule search_tool_answer [OF key encoded answer entries])
next
  show "release_year None = ''Unknown''"
    by (simp add: release_year_def)
next
  assume "year \<noteq> [] \<and> CHR ''-'' \<notin> set year"
  then show "release_year (Some (year @ CHR ''-'' # rest)) = year"
    by (simp add: release_year_dashed)
next
  fix result
  assume "final_search Number_toString env_key api args = Inr result \<or>
          sse_oauth_search Number_toString env_key api args = Inr result"
  then show "\<exists>entries. content result = [Text (JSON_stringify api entries)] \<and> length entries \<le> 10"
    unfolding final_search_def sse_oauth_search_def by (auto dest: search_tool_result)
qed

theorem search_maps_one_record_to_one_entry_witness:
  "final_search test_Number_toString (Some ''key'')
       (test_web_api (Response 200 (Inr \<lparr>results = Some [fight_club]\<rparr>)) entry_lines)
       (search_args ''fight club'')
     = Inr \<lparr>content = [Text ''550 | Fight Club (1999) | https://www.themoviedb.org/movie/550; ''],
            isError = None\<rparr> \<and>
   sse_oauth_search test_Number_toString (Some ''key'')
       (test_web_api (Response 200 (Inr \<lparr>results = Some [fight_club]\<rparr>)) entry_lines)
       (search_args ''fight club'')
     = Inr \<lparr>content = [Text ''550 | Fight Club (1999) | https://www.themoviedb.org/movie/550; ''],
            isError = None\<rparr> \<and>
   release_year (Some (''1999'' @ CHR ''-'' # ''10-15'')) = ''1999''"
proof -
  let ?data = "\<lparr>results = Some [\<lparr>m_id = Some (550::int), m_title = Some ''Fight Club'',
      m_release_date = Some ''1999-10-15''\<rparr>]\<rparr>"
  let ?api = "test_web_api (Response 200 (Inr ?data)) entry_lines"
  let ?a = "\<lparr>a_query = Some ''fight club'', a_id = None\<rparr>"
  have call: "truthy (Some ''key'') \<and>
      encodeURIComponent ?api (js_String (a_query ?a)) = Inr ''fight club'' \<and>
      fetch ?api (''https://api.themoviedb.org/3/search/movie?api_key=''
        @ js_String (Some ''key'') @ ''&query='' @ ''fight club'') = Response 200 (Inr ?data)"
    by (simp add: truthy_def test_web_api_def js_String_def)
  have year: "''1999'' \<noteq> [] \<and> CHR ''-'' \<notin> set ''1999''"
    by simp
  note inst = search_maps_one_record_to_one_entry [where env_key = "Some ''key''" and api = "?api"
      and a = "?a" and query = "''fight club''" and status = 200 and i = 550
      and title = "''Fight Club''" and release_date = "Some ''1999-10-15''"
      and year = "''1999''" and rest = "''10-15''" and Number_toString = test_Number_toString]
  note entry = inst [THEN conjunct1, THEN mp, OF call]
  note dashed = inst [THEN conjunct2, THEN conjunct2, THEN conjunct1, THEN mp, OF year]
  have rendered: "test_Number_toString 550 = ''550''"
    by (simp add: test_Number_toString_def string_of_nat.simps)
  have line: "JSON_stringify ?api
       [\<lparr>e_id = ''550'', e_title = ''Fight Club'' @ '' ('' @ ''1999'' @ '')'',
         e_url = ''https://www.themoviedb.org/movie/'' @ ''550''\<rparr>]
     = ''550 | Fight Club (1999) | https://www.themoviedb.org/movie/550; ''"
    by (simp add: test_web_api_def entry_lines_def)
  from dashed have y: "release_year (Some ''1999-10-15'') = ''1999''"
    by simp
  from entry have "final_search test_Number_toString (Some ''key'') ?api (Some ?a)
      = Inr \<lparr>content = [Text ''550 | Fight Club (1999) | https://www.themoviedb.org/movie/550; ''],
             isError = None\<rparr> \<and>
    sse_oauth_search test_Number_toString (Some ''key'') ?api (Some ?a)
      = final_search test_Number_toString (Some ''key'') ?api (Some ?a)"
    unfolding rendered y line .
  with dashed show ?thesis
    by (simp add: search_args_def fight_club_def)
qed

end
